theory Spec2Isabelle
  imports Main "HOL-Library.Sublist"
begin

section \<open>Data model\<close>

text \<open>
  The catalog types of \<^verbatim>\<open>src/source/main.go\<close> (the same declarations appear in
  \<^verbatim>\<open>src/cmd/main.go\<close>). Go strings are byte strings, modelled as \<^typ>\<open>string\<close>.
  A \<^verbatim>\<open>*Version\<close> result is an option: \<^verbatim>\<open>nil\<close> is \<^term>\<open>None\<close>.
\<close>

record Version =
  Version :: string
  URL :: string

record Library =
  Name :: string
  Versions :: "Version list"

record LibraryIndex =
  Libraries :: "Library list"

section \<open>Dependency resolver\<close>

text \<open>
  \<^verbatim>\<open>strings.HasPrefix(s, prefix)\<close> is
  \<^verbatim>\<open>len(s) >= len(prefix) && s[:len(prefix)] == prefix\<close>.
\<close>

definition HasPrefix :: "string \<Rightarrow> string \<Rightarrow> bool" where
  "HasPrefix s pre = (length pre \<le> length s \<and> take (length pre) s = pre)"

text \<open>
  Each backward loop of \<^verbatim>\<open>resolveVersion\<close>,
  \<^verbatim>\<open>for i := len(versions) - 1; i >= 0; i--\<close>. The counter of the model is
  \<open>i + 1\<close>, so that the loop ends at \<open>0\<close>; the loop is entered with
  \<open>length versions\<close>.
\<close>

fun scanPrefix :: "Version list \<Rightarrow> string \<Rightarrow> nat \<Rightarrow> Version option" where
  "scanPrefix versions pre 0 = None"
| "scanPrefix versions pre (Suc i) =
     (if HasPrefix (Version (versions ! i)) pre then Some (versions ! i)
      else scanPrefix versions pre i)"

fun scanExact :: "Version list \<Rightarrow> string \<Rightarrow> nat \<Rightarrow> Version option" where
  "scanExact versions spec 0 = None"
| "scanExact versions spec (Suc i) =
     (if Version (versions ! i) = spec then Some (versions ! i)
      else scanExact versions spec i)"

definition resolveVersion :: "Version list \<Rightarrow> string \<Rightarrow> Version option" where
  "resolveVersion versions spec =
     (if spec = ''*'' then
        (if length versions > 0 then Some (versions ! (length versions - 1)) else None)
      else if HasPrefix spec ''^'' then
        (let pre = drop 1 spec in scanPrefix versions pre (length versions))
      else scanExact versions spec (length versions))"

text \<open>\<^verbatim>\<open>findLibrary\<close>: the first library of the index with the given name.\<close>

fun findLibraryIn :: "Library list \<Rightarrow> string \<Rightarrow> Library option" where
  "findLibraryIn [] name = None"
| "findLibraryIn (lib # libs) name =
     (if Name lib = name then Some lib else findLibraryIn libs name)"

definition findLibrary :: "LibraryIndex \<Rightarrow> string \<Rightarrow> Library option" where
  "findLibrary index name = findLibraryIn (Libraries index) name"

definition mkVersion :: "string \<Rightarrow> string \<Rightarrow> Version" where
  "mkVersion v u = \<lparr>Version = v, URL = u\<rparr>"

section \<open>Library functions used by the program\<close>

text \<open>
  The Go standard-library functions the program calls, on byte strings.
  \<^verbatim>\<open>strings.Replace(s, old, new, 1)\<close> replaces the first occurrence of
  \<^verbatim>\<open>old\<close>; an empty \<^verbatim>\<open>old\<close> matches at the start.
\<close>

fun Replace1 :: "string \<Rightarrow> string \<Rightarrow> string \<Rightarrow> string" where
  "Replace1 [] old new = (if old = [] then new else [])"
| "Replace1 (c # cs) old new =
     (if HasPrefix (c # cs) old then new @ drop (length old) (c # cs)
      else c # Replace1 cs old new)"

text \<open>\<^verbatim>\<open>strings.Split(s, sep)\<close> for a one-byte separator: never the empty list.\<close>

fun Split :: "string \<Rightarrow> char \<Rightarrow> string list" where
  "Split [] sep = [Nil]"
| "Split (c # cs) sep =
     (if c = sep then [] # Split cs sep
      else (case Split cs sep of [] \<Rightarrow> [c # Nil] | l # ls \<Rightarrow> (c # l) # ls))"

fun Contains :: "string \<Rightarrow> string \<Rightarrow> bool" where
  "Contains [] sub = (sub = [])"
| "Contains (c # cs) sub = (HasPrefix (c # cs) sub \<or> Contains cs sub)"

text \<open>\<^verbatim>\<open>strings.Join(elems, sep)\<close>.\<close>

fun JoinStr :: "string list \<Rightarrow> string \<Rightarrow> string" where
  "JoinStr [] sep = []"
| "JoinStr [e] sep = e"
| "JoinStr (e # es) sep = e @ sep @ JoinStr es sep"

text \<open>
  \<^verbatim>\<open>strings.ToLower\<close> on ASCII letters; bytes outside \<open>A\<close>..\<open>Z\<close> are kept (the
  Unicode case mapping of non-ASCII runes is not modelled).
\<close>

definition lowerByte :: "char \<Rightarrow> char" where
  "lowerByte c =
     (if (65::nat) \<le> of_char c \<and> of_char c \<le> (90::nat) then char_of (of_char c + (32::nat))
      else c)"

definition ToLower :: "string \<Rightarrow> string" where
  "ToLower s = map lowerByte s"

text \<open>\<^verbatim>\<open>fmt.Sprintf("%d", n)\<close>.\<close>

fun natDigits :: "nat \<Rightarrow> string" where
  "natDigits n =
     (if n < 10 then [char_of (48 + n)]
      else natDigits (n div 10) @ [char_of (48 + n mod 10)])"

declare natDigits.simps [simp del]

definition Itoa :: "int \<Rightarrow> string" where
  "Itoa i = (if i < 0 then CHR ''-'' # natDigits (nat (- i)) else natDigits (nat i))"

subsection \<open>Paths (\<^verbatim>\<open>path/filepath\<close> with the separator \<open>/\<close>)\<close>

definition IsPathSeparator :: "char \<Rightarrow> bool" where
  "IsPathSeparator c = (c = CHR ''/'')"

text \<open>
  \<^verbatim>\<open>filepath.Ext\<close>: the loop
  \<^verbatim>\<open>for i := len(path) - 1; i >= 0 && !os.IsPathSeparator(path[i]); i--\<close>
  returns \<^verbatim>\<open>path[i:]\<close> at the first dot it meets, and the empty string otherwise.
\<close>

fun ExtFrom :: "string \<Rightarrow> nat \<Rightarrow> string" where
  "ExtFrom path 0 = []"
| "ExtFrom path (Suc i) =
     (if IsPathSeparator (path ! i) then []
      else if path ! i = CHR ''.'' then drop i path
      else ExtFrom path i)"

definition Ext :: "string \<Rightarrow> string" where
  "Ext path = ExtFrom path (length path)"

text \<open>
  \<^verbatim>\<open>filepath.Base\<close>: \<open>.\<close> for the empty path; trailing separators are stripped, the
  last element is kept; \<open>/\<close> when nothing is left.
\<close>

definition Base :: "string \<Rightarrow> string" where
  "Base path =
     (if path = [] then ''.''
      else
        (let stripped = rev (dropWhile IsPathSeparator (rev path));
             elem = rev (takeWhile (\<lambda>c. \<not> IsPathSeparator c) (rev stripped))
         in if elem = [] then ''/'' else elem))"

text \<open>
  \<^verbatim>\<open>filepath.Clean\<close>: empty and \<open>.\<close> elements are dropped, an inner \<open>..\<close> removes the
  element before it, a \<open>..\<close> at the start of a rooted path is dropped, and the empty
  result is \<open>.\<close>.
\<close>

definition cleanStep :: "bool \<Rightarrow> string list \<Rightarrow> string \<Rightarrow> string list" where
  "cleanStep rooted stack e =
     (if e = ''..'' then
        (if stack \<noteq> [] \<and> last stack \<noteq> ''..'' then butlast stack
         else if rooted then stack
         else stack @ [e])
      else stack @ [e])"

definition Clean :: "string \<Rightarrow> string" where
  "Clean path =
     (if path = [] then ''.''
      else
        (let rooted = IsPathSeparator (hd path);
             elems = filter (\<lambda>e. e \<noteq> [] \<and> e \<noteq> ''.'') (Split path (CHR ''/''));
             out = (if rooted then ''/'' else []) @ JoinStr (foldl (cleanStep rooted) [] elems) ''/''
         in if out = [] then ''.'' else out))"

text \<open>
  \<^verbatim>\<open>filepath.Join\<close>: the elements from the first non-empty one on are joined with
  the separator and cleaned; the result is empty when every element is.
\<close>

definition Join :: "string list \<Rightarrow> string" where
  "Join elem =
     (let es = dropWhile (\<lambda>e. e = []) elem
      in if es = [] then [] else Clean (JoinStr es ''/''))"

subsection \<open>\<^verbatim>\<open>fmt.Sscanf(message, "line %d, column %d", &line, &column)\<close>\<close>

text \<open>
  The scanner on this one format. A literal of the format must match the input byte for
  byte; a space of the format matches one or more spaces of the input, or its end;
  \<^verbatim>\<open>%d\<close> skips spaces, takes an optional sign and a run of digits and underscores,
  and fails on the empty run, on an underscore (base 10) and on a value outside 64 bits.
  The scan stops at the first failure and keeps what it has stored. The message scanned is
  one line, so the scanner's newline cases are left out; spaces are the ASCII ones.
\<close>

definition isSpace :: "char \<Rightarrow> bool" where
  "isSpace c = (c = CHR '' '' \<or> c = CHR 0x09 \<or> c = CHR 0x0B \<or> c = CHR 0x0C \<or> c = CHR 0x0D)"

definition isDigit :: "char \<Rightarrow> bool" where
  "isDigit c = ((48::nat) \<le> of_char c \<and> of_char c \<le> (57::nat))"

fun matchLit :: "string \<Rightarrow> string \<Rightarrow> string option" where
  "matchLit [] inp = Some inp"
| "matchLit (c # cs) [] = None"
| "matchLit (c # cs) (d # ds) = (if c = d then matchLit cs ds else None)"

definition matchSpace :: "string \<Rightarrow> string option" where
  "matchSpace inp =
     (case inp of
        [] \<Rightarrow> Some []
      | c # cs \<Rightarrow> if isSpace c then Some (dropWhile isSpace cs) else None)"

definition decimal :: "string \<Rightarrow> int" where
  "decimal ds = foldl (\<lambda>a c. 10 * a + (int (of_char c) - 48)) 0 ds"

definition scanInt :: "string \<Rightarrow> (int \<times> string) option" where
  "scanInt inp =
     (let s = dropWhile isSpace inp;
          neg = (s \<noteq> [] \<and> hd s = CHR ''-'');
          s1 = (if s \<noteq> [] \<and> (hd s = CHR ''+'' \<or> hd s = CHR ''-'') then tl s else s);
          tok = takeWhile (\<lambda>c. isDigit c \<or> c = CHR ''_'') s1;
          rest = dropWhile (\<lambda>c. isDigit c \<or> c = CHR ''_'') s1;
          v = (if neg then - decimal tok else decimal tok)
      in if tok = [] \<or> CHR ''_'' \<in> set tok then None
         else if v < - (2 ^ 63) \<or> 2 ^ 63 \<le> v then None
         else Some (v, rest))"

definition Sscanf_line_column :: "string \<Rightarrow> int \<times> int \<Rightarrow> int \<times> int" where
  "Sscanf_line_column message lc =
     (case matchLit ''line'' message of None \<Rightarrow> lc | Some r1 \<Rightarrow>
      case matchSpace r1 of None \<Rightarrow> lc | Some r2 \<Rightarrow>
      case scanInt r2 of None \<Rightarrow> lc | Some (line, r3) \<Rightarrow>
      case matchLit '','' r3 of None \<Rightarrow> (line, snd lc) | Some r4 \<Rightarrow>
      case matchSpace r4 of None \<Rightarrow> (line, snd lc) | Some r5 \<Rightarrow>
      case matchLit ''column'' r5 of None \<Rightarrow> (line, snd lc) | Some r6 \<Rightarrow>
      case matchSpace r6 of None \<Rightarrow> (line, snd lc) | Some r7 \<Rightarrow>
      case scanInt r7 of None \<Rightarrow> (line, snd lc) | Some (column, r8) \<Rightarrow> (line, column))"

section \<open>The environment of a build\<close>

text \<open>
  The manifest types. A Go map is iterated in an unspecified order: \<open>Dependencies\<close> is the
  list of the map's entries in the order the \<^verbatim>\<open>range\<close> loop of the run visits them.
\<close>

record Package =
  PackageName :: string
  PackageVersion :: string

record Config =
  Package :: Package
  Dependencies :: "(string \<times> string) list"

text \<open>
  What the program does to the outside is recorded as a trace of events: what it
  prints (\<^verbatim>\<open>pterm\<close>, by printer), the HTTP requests, the calls of the isolation runtime
  (podman bindings) and the host processes it runs. The host files it reads and writes
  are a map from paths to nodes.
\<close>

datatype level = Section | Info | Success | Error

record Mount =
  MountType :: string
  Source :: string
  Destination :: string
  Options :: "string list"

record SpecGenerator =
  Image :: string
  Mounts :: "Mount list"
  WorkDir :: string
  Command :: "string list"

datatype "context" = Background | Connection string

datatype event =
    Print level "string list"
  | HttpGet string
  | NewConnection string
  | Pull string
  | CreateWithSpec SpecGenerator
  | Start string
  | Stop string
  | Remove string
  | Exec "context" string "string list"
  | RunCommand "string list"
  | RemoveAll string

datatype node = File string | Dir

type_synonym fs = "string \<Rightarrow> node option"

record state =
  trace :: "event list"
  files :: fs

definition emit :: "event \<Rightarrow> state \<Rightarrow> state" where
  "emit e s = s\<lparr>trace := trace s @ [e]\<rparr>"

text \<open>
  An HTTP response: \<open>Body\<close> holds the bytes the body delivers before it ends, and
  \<open>BodyErr\<close> the read error when the transfer is interrupted (\<^term>\<open>None\<close>: the body
  ended normally).
\<close>

record Response =
  StatusCode :: nat
  Body :: string
  BodyErr :: "string option"

text \<open>
  One exec in the sandbox, as the three binding calls of \<^verbatim>\<open>execInContainer\<close> see it:
  \<^verbatim>\<open>ExecCreate\<close> fails; \<^verbatim>\<open>ExecStartAndAttach\<close> fails after some output;
  \<^verbatim>\<open>ExecInspect\<close> fails; or the process exits with a code.
\<close>

datatype exec_outcome =
    ExecCreateErr string
  | AttachErr string string
  | InspectErr string string
  | Exited string int

text \<open>
  The environment: the answers of everything outside the program. An answer that the
  program can ask for more than once takes the trace so far, so that it may depend on
  the whole history. Errors are their messages; \<^term>\<open>Inl\<close> is the error of a call
  that returns a value.
\<close>

record world =
  GOOS :: string
  binPath :: string
  XDG_RUNTIME_DIR :: string
  Getuid :: int
  toml_Unmarshal :: "string \<Rightarrow> string + Config"
  json_Unmarshal :: "string \<Rightarrow> string + LibraryIndex"
  MkdirTemp_world :: "string + string"
  MkdirAll_err :: "event list \<Rightarrow> string \<Rightarrow> string option"
  WriteFile_err :: "event list \<Rightarrow> string \<Rightarrow> string option"
  Create_err :: "event list \<Rightarrow> string \<Rightarrow> string option"
  copyDir_world :: "fs \<Rightarrow> string \<Rightarrow> string \<Rightarrow> string option \<times> fs"
  http_Get :: "event list \<Rightarrow> string \<Rightarrow> string + Response"
  NewConnection_err :: "string \<Rightarrow> string option"
  Pull_err :: "string \<Rightarrow> string option"
  CreateWithSpec_world :: "SpecGenerator \<Rightarrow> string + string"
  Start_err :: "string \<Rightarrow> string option"
  exec_world :: "event list \<Rightarrow> context \<Rightarrow> string \<Rightarrow> string list \<Rightarrow> exec_outcome"
  exec_effect :: "event list \<Rightarrow> string list \<Rightarrow> fs \<Rightarrow> fs"
  diagnostic_world :: "event list \<Rightarrow> string list \<Rightarrow> string \<times> string option"

text \<open>
  A step of \<^verbatim>\<open>compileProject\<close> either calls \<^verbatim>\<open>os.Exit(1)\<close>, which ends the
  process at once and runs no deferred function, or goes on with a value.
\<close>

datatype 'a res = OsExit state | Cont 'a state

datatype outcome = ExitCode1 state | Returned state

definition showErr :: "string option \<Rightarrow> string" where
  "showErr err = (case err of None \<Rightarrow> ''<nil>'' | Some e \<Rightarrow> e)"

subsection \<open>Host files\<close>

text \<open>
  A file operation fails when the map of files says so (a directory where a file is
  needed, a missing file) or when the environment says so. \<^verbatim>\<open>os.MkdirAll\<close> records
  the directory itself, not its ancestors.
\<close>

definition MkdirAll :: "world \<Rightarrow> string \<Rightarrow> state \<Rightarrow> string option \<times> state" where
  "MkdirAll w path s =
     (case files s path of
        Some Dir \<Rightarrow> (None, s)
      | Some (File c) \<Rightarrow> (Some ''not a directory'', s)
      | None \<Rightarrow>
          (case MkdirAll_err w (trace s) path of
             Some e \<Rightarrow> (Some e, s)
           | None \<Rightarrow> (None, s\<lparr>files := (files s)(path \<mapsto> Dir)\<rparr>)))"

text \<open>\<^verbatim>\<open>os.Create\<close>: the file is created, or truncated when it exists.\<close>

definition Create :: "world \<Rightarrow> string \<Rightarrow> state \<Rightarrow> string option \<times> state" where
  "Create w path s =
     (case files s path of
        Some Dir \<Rightarrow> (Some ''is a directory'', s)
      | _ \<Rightarrow>
          (case Create_err w (trace s) path of
             Some e \<Rightarrow> (Some e, s)
           | None \<Rightarrow> (None, s\<lparr>files := (files s)(path \<mapsto> File [])\<rparr>)))"

definition WriteFile :: "world \<Rightarrow> string \<Rightarrow> string \<Rightarrow> state \<Rightarrow> string option \<times> state" where
  "WriteFile w path data s =
     (case files s path of
        Some Dir \<Rightarrow> (Some ''is a directory'', s)
      | _ \<Rightarrow>
          (case WriteFile_err w (trace s) path of
             Some e \<Rightarrow> (Some e, s)
           | None \<Rightarrow> (None, s\<lparr>files := (files s)(path \<mapsto> File data)\<rparr>)))"

definition ReadFile :: "string \<Rightarrow> state \<Rightarrow> string + string" where
  "ReadFile path s =
     (case files s path of
        Some (File data) \<Rightarrow> Inr data
      | Some Dir \<Rightarrow> Inl ''is a directory''
      | None \<Rightarrow> Inl ''no such file or directory'')"

definition copyFile :: "world \<Rightarrow> string \<Rightarrow> string \<Rightarrow> state \<Rightarrow> string option \<times> state" where
  "copyFile w src dst s =
     (case ReadFile src s of
        Inl e \<Rightarrow> (Some e, s)
      | Inr data \<Rightarrow> WriteFile w dst data s)"

definition projectTOML :: string where "projectTOML = ''Project.toml''"
definition depsDir :: string where "depsDir = ''.virus_deps''"
definition wolfiImage :: string where "wolfiImage = ''cgr.dev/chainguard/wolfi-base:latest''"
definition indexURL :: string where
  "indexURL = ''https://raw.githubusercontent.com/vira-language/vira/main/repository/virus.json''"

definition findProjectFile :: "state \<Rightarrow> string" where
  "findProjectFile s = (if files s projectTOML \<noteq> None then projectTOML else [])"

definition loadConfig :: "world \<Rightarrow> state \<Rightarrow> string + Config" where
  "loadConfig w s =
     (let projectFile = findProjectFile s
      in if projectFile = [] then Inl ''no project file found''
         else (case ReadFile projectFile s of
                 Inl e \<Rightarrow> Inl e
               | Inr data \<Rightarrow> toml_Unmarshal w data))"

subsection \<open>Diagnostic reporter: \<^verbatim>\<open>handleError\<close>\<close>

definition handleError :: "world \<Rightarrow> string \<Rightarrow> string \<Rightarrow> state \<Rightarrow> state" where
  "handleError w sourceFile errorMsg s =
     (let s1 = emit (Print Error [''Error occurred. Running diagnostic...'']) s;
          lines = Split errorMsg (CHR 0x0A);
          message = (if length lines > 0 then lines ! 0 else []);
          lc = (if length lines > 0 \<and> Contains message ''line''
                then Sscanf_line_column message (1, 1) else (1, 1));
          diagnostic = Join [binPath w, ''diagnostic'']
                         @ (if GOOS w = ''windows'' then ''.exe'' else []);
          cmdDiag = [diagnostic, ''--source'', sourceFile, ''--message'', message,
                     ''--line'', Itoa (fst lc), ''--column'', Itoa (snd lc)];
          r = diagnostic_world w (trace s1) cmdDiag;
          s2 = emit (RunCommand cmdDiag) s1
      in if snd r \<noteq> None then emit (Print Error [fst r]) s2
         else emit (Print Info [fst r]) s2)"

subsection \<open>Artifact store: \<^verbatim>\<open>downloadWithProgress\<close> and the fetch of a dependency\<close>

text \<open>
  \<^verbatim>\<open>downloadWithProgress\<close>: the request, then \<^verbatim>\<open>os.Create(target)\<close>, then
  \<^verbatim>\<open>io.Copy\<close> of the body into the file. The status code of the response is not
  looked at. The progress bar is terminal rendering and is left out.
\<close>

definition downloadWithProgress ::
  "world \<Rightarrow> string \<Rightarrow> string \<Rightarrow> state \<Rightarrow> string option \<times> state" where
  "downloadWithProgress w url target s =
     (let s1 = emit (HttpGet url) s
      in case http_Get w (trace s) url of
           Inl e \<Rightarrow> (Some e, s1)
         | Inr resp \<Rightarrow>
             (case Create w target s1 of
                (Some e, s2) \<Rightarrow> (Some e, s2)
              | (None, s2) \<Rightarrow>
                  (BodyErr resp, s2\<lparr>files := (files s2)(target \<mapsto> File (Body resp))\<rparr>)))"

text \<open>
  The fetch of one resolved dependency, lines 259 to 272 of \<^verbatim>\<open>compileProject\<close> in
  \<^verbatim>\<open>src/source/main.go\<close> (438 to 453 in \<^verbatim>\<open>src/cmd/main.go\<close>): the spec's
  \<^verbatim>\<open>ensure\<close>. It goes on with \<^verbatim>\<open>depPath\<close>, \<^verbatim>\<open>fileName\<close> and
  \<^verbatim>\<open>targetFile\<close>. \<^verbatim>\<open>os.Stat\<close> reports a missing file exactly when the path has
  no node.
\<close>

definition ensure ::
  "world \<Rightarrow> string \<Rightarrow> string \<Rightarrow> Version \<Rightarrow> state \<Rightarrow> (string \<times> string \<times> string) res" where
  "ensure w depsDirTemp name version s =
     (let depPath = Join [depsDirTemp, name, Version version]
      in case MkdirAll w depPath s of
           (Some e, s1) \<Rightarrow> OsExit (emit (Print Error [''Failed to create dep path:'', e]) s1)
         | (None, s1) \<Rightarrow>
             (let fileName = Base (URL version);
                  targetFile = Join [depPath, fileName]
              in if files s1 targetFile = None then
                   (let s2 = emit (Print Info [''Downloading'', name, Version version]) s1
                    in case downloadWithProgress w (URL version) targetFile s2 of
                         (Some e, s3) \<Rightarrow>
                           OsExit (emit (Print Error [''Failed to download:'', e]) s3)
                       | (None, s3) \<Rightarrow> Cont (depPath, fileName, targetFile) s3)
                 else Cont (depPath, fileName, targetFile) s1))"

text \<open>The number of HTTP requests in a trace.\<close>

definition transfers :: "event list \<Rightarrow> nat" where
  "transfers tr = length (filter (\<lambda>e. case e of HttpGet u \<Rightarrow> True | _ \<Rightarrow> False) tr)"

section \<open>Sandbox and pipeline\<close>

text \<open>
  \<^verbatim>\<open>execInContainer\<close>: output, exit code and error of one exec. The request is an
  event whatever its result; a process that was started may have changed the files of
  the mounted workspace.
\<close>

definition execInContainer ::
  "world \<Rightarrow> context \<Rightarrow> string \<Rightarrow> string list \<Rightarrow> state
     \<Rightarrow> (string \<times> int \<times> string option) \<times> state" where
  "execInContainer w conn containerID cmd s =
     (let s1 = emit (Exec conn containerID cmd) s;
          s2 = s1\<lparr>files := exec_effect w (trace s) cmd (files s1)\<rparr>
      in case exec_world w (trace s) conn containerID cmd of
           ExecCreateErr e \<Rightarrow> (([], - 1, Some e), s1)
         | AttachErr buf e \<Rightarrow> ((buf, - 1, Some e), s2)
         | InspectErr buf e \<Rightarrow> ((buf, - 1, Some e), s2)
         | Exited buf code \<Rightarrow> ((buf, code, None), s2))"

text \<open>
  \<^verbatim>\<open>compileSourceInContainer\<close>: the stages of one translation unit. The result is
  the returned error (\<^term>\<open>None\<close> is \<^verbatim>\<open>nil\<close>).
\<close>

definition compileSourceInContainer ::
  "world \<Rightarrow> context \<Rightarrow> string \<Rightarrow> string \<Rightarrow> string \<Rightarrow> string list \<Rightarrow> string \<Rightarrow> string
     \<Rightarrow> state \<Rightarrow> string option \<times> state" where
  "compileSourceInContainer w conn containerID input output includeFlags ext tempDir s =
     (let s0 = emit (Print Section [''Compiling source:'', input]) s
      in if ext = ''.vira'' then
           (let preOut = input @ ''.pre'';
                cmdPre = ([''preprocessor''] @ includeFlags) @ [input, preOut]
            in case execInContainer w conn containerID cmdPre s0 of
                 ((out, exit, err), s1) \<Rightarrow>
            if err \<noteq> None \<or> exit \<noteq> 0 then
              (Some (''preprocess failed: '' @ out),
               handleError w (Replace1 input ''/work'' tempDir) out s1)
            else
              (let s2 = emit (Print Success [''Preprocessing done'']) s1;
                   cmdPlsa = [''plsa'', preOut]
               in case execInContainer w conn containerID cmdPlsa s2 of
                    ((out, exit, err), s3) \<Rightarrow>
               if err \<noteq> None \<or> exit \<noteq> 0 then
                 (Some (''plsa failed: '' @ out),
                  handleError w (Replace1 preOut ''/work'' tempDir) out s3)
               else
                 (let s4 = emit (Print Success [''PLSA done'']) s3;
                      cmdComp = [''compiler'', preOut, output]
                  in case execInContainer w conn containerID cmdComp s4 of
                       ((out, exit, err), s5) \<Rightarrow>
                  if err \<noteq> None \<or> exit \<noteq> 0 then
                    (Some (''compile failed: '' @ out),
                     handleError w (Replace1 preOut ''/work'' tempDir) out s5)
                  else (None, emit (Print Success [''Compilation done'']) s5))))
         else if ext = ''.c'' then
           (let cmd = ([''gcc'', ''-c''] @ includeFlags) @ [input, ''-o'', output]
            in case execInContainer w conn containerID cmd s0 of
                 ((out, exit, err), s1) \<Rightarrow>
            if err \<noteq> None \<or> exit \<noteq> 0 then
              (Some (''gcc failed: '' @ out),
               handleError w (Replace1 input ''/work'' tempDir) out s1)
            else (None, emit (Print Success [''GCC compilation done'']) s1))
         else if ext = ''.cpp'' then
           (let cmd = ([''g++'', ''-c''] @ includeFlags) @ [input, ''-o'', output]
            in case execInContainer w conn containerID cmd s0 of
                 ((out, exit, err), s1) \<Rightarrow>
            if err \<noteq> None \<or> exit \<noteq> 0 then
              (Some (''g++ failed: '' @ out),
               handleError w (Replace1 input ''/work'' tempDir) out s1)
            else (None, emit (Print Success [''G++ compilation done'']) s1))
         else (None, s0))"

subsection \<open>\<^verbatim>\<open>compileProject\<close> of \<^verbatim>\<open>src/source/main.go\<close>\<close>

text \<open>
  \<^verbatim>\<open>downloadIndex\<close>: the request, \<^verbatim>\<open>io.ReadAll\<close> of the body, and the JSON
  decoder.
\<close>

definition downloadIndex :: "world \<Rightarrow> state \<Rightarrow> (string + LibraryIndex) \<times> state" where
  "downloadIndex w s =
     (let s1 = emit (HttpGet indexURL) s
      in case http_Get w (trace s) indexURL of
           Inl e \<Rightarrow> (Inl e, s1)
         | Inr resp \<Rightarrow>
             (case BodyErr resp of
                Some e \<Rightarrow> (Inl e, s1)
              | None \<Rightarrow> (json_Unmarshal w (Body resp), s1)))"

text \<open>
  Lines 164 to 198: the configuration, the temporary workspace and the index. The step
  goes on with the configuration, \<^verbatim>\<open>tempDir\<close>, \<^verbatim>\<open>depsDirTemp\<close> and the index.
  \<^verbatim>\<open>copyDir\<close> walks the source tree; its error and its effect on the files are the
  environment's.
\<close>

definition prepareWorkspace ::
  "world \<Rightarrow> state \<Rightarrow> (Config \<times> string \<times> string \<times> LibraryIndex) res" where
  "prepareWorkspace w s =
     (let s0 = emit (Print Section [''Compiling Vira project'']) s
      in case loadConfig w s0 of
           Inl e \<Rightarrow> OsExit (emit (Print Error [e]) s0)
         | Inr config \<Rightarrow>
      (case MkdirTemp_world w of
           Inl e \<Rightarrow> OsExit (emit (Print Error [''Failed to create temp dir:'', e]) s0)
         | Inr tempDir \<Rightarrow>
      (let s1 = s0\<lparr>files := (files s0)(tempDir \<mapsto> Dir)\<rparr>;
           projectFile = findProjectFile s1
       in if projectFile = [] then OsExit (emit (Print Error [''No project file found'']) s1)
          else
      (case copyFile w projectFile (Join [tempDir, Base projectFile]) s1 of
           (Some e, s2) \<Rightarrow> OsExit (emit (Print Error [''Failed to copy project file:'', e]) s2)
         | (None, s2) \<Rightarrow>
      (case copyDir_world w (files s2) ''src'' (Join [tempDir, ''src'']) of
           (Some e, fs3) \<Rightarrow>
             OsExit (emit (Print Error [''Failed to copy src dir:'', e]) (s2\<lparr>files := fs3\<rparr>))
         | (None, fs3) \<Rightarrow>
      (let depsDirTemp = Join [tempDir, depsDir]
       in case MkdirAll w depsDirTemp (s2\<lparr>files := fs3\<rparr>) of
            (Some e, s4) \<Rightarrow> OsExit (emit (Print Error [''Failed to create deps dir:'', e]) s4)
          | (None, s4) \<Rightarrow>
      (case downloadIndex w s4 of
            (Inl e, s5) \<Rightarrow> OsExit (emit (Print Error [''Failed to download index:'', e]) s5)
          | (Inr index, s5) \<Rightarrow> Cont (config, tempDir, depsDirTemp, index) s5)))))))"

text \<open>
  Lines 201 to 233: the connection, the image, and the sandbox session, created and
  started. The step goes on with the connection and the container id. The deferred
  teardown is registered after it (line 234).
\<close>

definition sandboxSpec :: "world \<Rightarrow> string \<Rightarrow> SpecGenerator" where
  "sandboxSpec w tempDir =
     \<lparr>Image = wolfiImage,
      Mounts = [\<lparr>MountType = ''bind'', Source = tempDir, Destination = ''/work'',
                  Options = [''rw'']\<rparr>,
                \<lparr>MountType = ''bind'', Source = binPath w, Destination = ''/vira-bin'',
                  Options = [''ro'']\<rparr>],
      WorkDir = ''/work'',
      Command = [''/bin/sh'', ''-c'', ''while true; do sleep 100000; done'']\<rparr>"

definition startSandbox :: "world \<Rightarrow> string \<Rightarrow> state \<Rightarrow> (context \<times> string) res" where
  "startSandbox w tempDir s =
     (let runtimeDir = (if XDG_RUNTIME_DIR w = [] then ''/run/user/'' @ Itoa (Getuid w)
                        else XDG_RUNTIME_DIR w);
          socketPath = ''unix://'' @ runtimeDir @ ''/podman/podman.sock'';
          s1 = emit (NewConnection socketPath) s
      in case NewConnection_err w socketPath of
           Some e \<Rightarrow> OsExit (emit (Print Error [''Failed to connect to Podman:'', e]) s1)
         | None \<Rightarrow>
      (let conn = Connection socketPath;
           s2 = emit (Pull wolfiImage) s1
       in case Pull_err w wolfiImage of
            Some e \<Rightarrow> OsExit (emit (Print Error [''Failed to pull Wolfi image:'', e]) s2)
          | None \<Rightarrow>
      (let spec = sandboxSpec w tempDir;
           s3 = emit (CreateWithSpec spec) s2
       in case CreateWithSpec_world w spec of
            Inl e \<Rightarrow> OsExit (emit (Print Error [''Failed to create container:'', e]) s3)
          | Inr containerID \<Rightarrow>
      (let s4 = emit (Start containerID) s3
       in case Start_err w containerID of
            Some e \<Rightarrow> OsExit (emit (Print Error [''Failed to start container:'', e]) s4)
          | None \<Rightarrow> Cont (conn, containerID) s4))))"

text \<open>Lines 238 to 247: the two package-manager execs in the sandbox.\<close>

definition provision :: "world \<Rightarrow> context \<Rightarrow> string \<Rightarrow> state \<Rightarrow> unit res" where
  "provision w conn containerID s =
     (case execInContainer w conn containerID [''apk'', ''update''] s of
        ((out, exit, err), s1) \<Rightarrow>
      if err \<noteq> None \<or> exit \<noteq> 0 then
        OsExit (emit (Print Error [''apk update failed:'', out, showErr err]) s1)
      else
        (case execInContainer w conn containerID
                [''apk'', ''add'', ''--no-cache'', ''build-base'', ''gcc'', ''g++''] s1 of
           ((out, exit, err), s2) \<Rightarrow>
         if err \<noteq> None \<or> exit \<noteq> 0 then
           OsExit (emit (Print Error [''apk add failed:'', out, showErr err]) s2)
         else Cont () s2))"

text \<open>
  Lines 249 to 282: the body of the loop over the dependencies, for one entry of the
  map. It goes on with the extended \<^verbatim>\<open>depPaths\<close> and \<^verbatim>\<open>objectFilesContainer\<close>.
  The per-unit function is given \<^verbatim>\<open>ctx\<close>, the background context, as the source
  does.
\<close>

definition depStep ::
  "world \<Rightarrow> string \<Rightarrow> LibraryIndex \<Rightarrow> string \<Rightarrow> string \<Rightarrow> string \<times> string
     \<Rightarrow> string list \<times> string list \<Rightarrow> state \<Rightarrow> (string list \<times> string list) res" where
  "depStep w containerID index tempDir depsDirTemp dep acc s =
     (let name = fst dep; versionSpec = snd dep; depPaths = fst acc;
          objectFilesContainer = snd acc
      in case findLibrary index name of
           None \<Rightarrow> OsExit (emit (Print Error [''Library not found:'', name]) s)
         | Some lib \<Rightarrow>
      (case resolveVersion (Versions lib) versionSpec of
           None \<Rightarrow> OsExit (emit (Print Error [''No matching version for'', name, versionSpec]) s)
         | Some version \<Rightarrow>
      (case ensure w depsDirTemp name version s of
           OsExit s1 \<Rightarrow> OsExit s1
         | Cont (depPath, fileName, targetFile) s1 \<Rightarrow>
      (let depPaths' = depPaths @ [depPath];
           ext = ToLower (Ext fileName);
           containerInput = Replace1 targetFile tempDir ''/work'';
           containerO = Replace1 depPath tempDir ''/work'' @ ''/lib.o''
       in if ext = ''.vira'' \<or> ext = ''.c'' \<or> ext = ''.cpp'' then
            (case compileSourceInContainer w Background containerID containerInput containerO
                    [] ext tempDir s1 of
               (Some e, s2) \<Rightarrow> OsExit s2
             | (None, s2) \<Rightarrow> Cont (depPaths', objectFilesContainer @ [containerO]) s2)
          else Cont (depPaths', objectFilesContainer) s1))))"

fun depsLoop ::
  "world \<Rightarrow> string \<Rightarrow> LibraryIndex \<Rightarrow> string \<Rightarrow> string \<Rightarrow> (string \<times> string) list
     \<Rightarrow> string list \<times> string list \<Rightarrow> state \<Rightarrow> (string list \<times> string list) res" where
  "depsLoop w containerID index tempDir depsDirTemp [] acc s = Cont acc s"
| "depsLoop w containerID index tempDir depsDirTemp (dep # deps) acc s =
     (case depStep w containerID index tempDir depsDirTemp dep acc s of
        OsExit s1 \<Rightarrow> OsExit s1
      | Cont acc1 s1 \<Rightarrow> depsLoop w containerID index tempDir depsDirTemp deps acc1 s1)"

text \<open>
  Lines 284 to 318: the main unit, the link and the copy of the executable to the host.
  The per-unit function is given \<^verbatim>\<open>ctx\<close> here too; the link exec is given the
  connection.
\<close>

definition buildMain ::
  "world \<Rightarrow> context \<Rightarrow> string \<Rightarrow> Config \<Rightarrow> string \<Rightarrow> string list \<times> string list \<Rightarrow> state
     \<Rightarrow> unit res" where
  "buildMain w conn containerID config tempDir acc s =
     (let containerInput = ''/work/src/main.vira'';
          containerMainO = ''/work/main.o'';
          includeFlagsContainer = map (\<lambda>depPath. ''-I'' @ Replace1 depPath tempDir ''/work'') (fst acc)
      in case compileSourceInContainer w Background containerID containerInput containerMainO
                includeFlagsContainer ''.vira'' tempDir s of
           (Some e, s1) \<Rightarrow> OsExit s1
         | (None, s1) \<Rightarrow>
      (let objectFilesContainer = snd acc @ [containerMainO];
           outputExeContainer = ''/work/bin/'' @ PackageName (Package config);
           cmdLink = ([''gcc''] @ objectFilesContainer) @ [''-o'', outputExeContainer]
       in case execInContainer w conn containerID cmdLink s1 of
            ((out, exit, err), s2) \<Rightarrow>
       if err \<noteq> None \<or> exit \<noteq> 0 then OsExit (emit (Print Error [''Linking failed:'', out]) s2)
       else
      (let s3 = emit (Print Success [''Linking done'']) s2;
           localBinDir = ''bin''
       in case MkdirAll w localBinDir s3 of
            (Some e, s4) \<Rightarrow> OsExit (emit (Print Error [e]) s4)
          | (None, s4) \<Rightarrow>
      (let localExe = Join [localBinDir, PackageName (Package config)]
                        @ (if GOOS w = ''windows'' then ''.exe'' else [])
       in case copyFile w (Join [tempDir, ''bin'', PackageName (Package config)]) localExe s4 of
            (Some e, s5) \<Rightarrow> OsExit (emit (Print Error [''Failed to copy executable:'', e]) s5)
          | (None, s5) \<Rightarrow> Cont () (emit (Print Success [''Compilation complete'']) s5)))))"

text \<open>
  The deferred functions, run when \<^verbatim>\<open>compileProject\<close> returns, last registered
  first: the teardown of the sandbox (line 234), then the removal of the workspace
  (line 175).
\<close>

definition teardown :: "string \<Rightarrow> state \<Rightarrow> state" where
  "teardown containerID s = emit (Remove containerID) (emit (Stop containerID) s)"

definition RemoveAllFiles :: "string \<Rightarrow> state \<Rightarrow> state" where
  "RemoveAllFiles dir s =
     emit (RemoveAll dir)
       (s\<lparr>files := (\<lambda>p. if p = dir \<or> HasPrefix p (dir @ ''/'') then None else files s p)\<rparr>)"

definition compileProject :: "world \<Rightarrow> state \<Rightarrow> outcome" where
  "compileProject w s =
     (case prepareWorkspace w s of
        OsExit s1 \<Rightarrow> ExitCode1 s1
      | Cont (config, tempDir, depsDirTemp, index) s1 \<Rightarrow>
     (case startSandbox w tempDir s1 of
        OsExit s2 \<Rightarrow> ExitCode1 s2
      | Cont (conn, containerID) s2 \<Rightarrow>
     (case provision w conn containerID s2 of
        OsExit s3 \<Rightarrow> ExitCode1 s3
      | Cont u s3 \<Rightarrow>
     (case depsLoop w containerID index tempDir depsDirTemp (Dependencies config) ([], []) s3 of
        OsExit s4 \<Rightarrow> ExitCode1 s4
      | Cont acc s4 \<Rightarrow>
     (case buildMain w conn containerID config tempDir acc s4 of
        OsExit s5 \<Rightarrow> ExitCode1 s5
      | Cont u s5 \<Rightarrow> Returned (RemoveAllFiles tempDir (teardown containerID s5)))))))"

text \<open>Observations of a run.\<close>

definition final :: "outcome \<Rightarrow> state" where
  "final r = (case r of ExitCode1 s \<Rightarrow> s | Returned s \<Rightarrow> s)"

definition exitedWith1 :: "outcome \<Rightarrow> bool" where
  "exitedWith1 r = (case r of ExitCode1 s \<Rightarrow> True | Returned s \<Rightarrow> False)"

definition resState :: "'a res \<Rightarrow> state" where
  "resState r = (case r of OsExit s \<Rightarrow> s | Cont x s \<Rightarrow> s)"

definition isCreate :: "event \<Rightarrow> bool" where
  "isCreate e = (case e of CreateWithSpec spec \<Rightarrow> True | _ \<Rightarrow> False)"

definition isExec :: "event \<Rightarrow> bool" where
  "isExec e = (case e of Exec c i cmd \<Rightarrow> True | _ \<Rightarrow> False)"

definition isStop :: "event \<Rightarrow> bool" where
  "isStop e = (case e of Stop i \<Rightarrow> True | _ \<Rightarrow> False)"

definition isRemove :: "event \<Rightarrow> bool" where
  "isRemove e = (case e of Remove i \<Rightarrow> True | _ \<Rightarrow> False)"

text \<open>
  The stage commands of one translation unit, in the order \<^verbatim>\<open>compileSourceInContainer\<close>
  issues them, and the in-sandbox input file of each stage.
\<close>

definition stages :: "string \<Rightarrow> string \<Rightarrow> string list \<Rightarrow> string \<Rightarrow> string list list" where
  "stages input output includeFlags ext =
     (if ext = ''.vira'' then
        [([''preprocessor''] @ includeFlags) @ [input, input @ ''.pre''],
         [''plsa'', input @ ''.pre''],
         [''compiler'', input @ ''.pre'', output]]
      else if ext = ''.c'' then [([''gcc'', ''-c''] @ includeFlags) @ [input, ''-o'', output]]
      else if ext = ''.cpp'' then [([''g++'', ''-c''] @ includeFlags) @ [input, ''-o'', output]]
      else [])"

definition stageInput :: "string \<Rightarrow> nat \<Rightarrow> string" where
  "stageInput input k = (if k = 0 then input else input @ ''.pre'')"

text \<open>
  The resolution or the fetch of a dependency fails in a state: the library is not in the
  index, no version matches, or the fetch exits.
\<close>

definition fetchAborts :: "world \<Rightarrow> LibraryIndex \<Rightarrow> string \<Rightarrow> string \<times> string \<Rightarrow> state \<Rightarrow> bool" where
  "fetchAborts w index depsDirTemp dep s =
     (case findLibrary index (fst dep) of
        None \<Rightarrow> True
      | Some lib \<Rightarrow>
          (case resolveVersion (Versions lib) (snd dep) of
             None \<Rightarrow> True
           | Some version \<Rightarrow>
               (case ensure w depsDirTemp (fst dep) version s of
                  OsExit s1 \<Rightarrow> True
                | Cont r s1 \<Rightarrow> False)))"

text \<open>
  A state extends another by events that all satisfy a predicate; an event that is not a
  teardown call; the socket the program connects to.
\<close>

definition appended :: "(event \<Rightarrow> bool) \<Rightarrow> state \<Rightarrow> state \<Rightarrow> bool" where
  "appended P s s' = (\<exists>t. trace s' = trace s @ t \<and> list_all P t)"

definition running :: "event \<Rightarrow> bool" where
  "running e = (\<not> isStop e \<and> \<not> isRemove e)"

definition socketPathOf :: "world \<Rightarrow> string" where
  "socketPathOf w =
     ''unix://'' @ (if XDG_RUNTIME_DIR w = [] then ''/run/user/'' @ Itoa (Getuid w)
                    else XDG_RUNTIME_DIR w) @ ''/podman/podman.sock''"

section \<open>Example environments\<close>

text \<open>
  Concrete environments on which the theorems below are instantiated: an index with one
  library, a manifest, an environment in which every call succeeds, and variations of it.
\<close>

definition exampleIndex :: LibraryIndex where
  "exampleIndex =
     \<lparr>Libraries = [\<lparr>Name = ''foo'',
                     Versions = [mkVersion ''1.0.0'' ''https://h/foo-1.0.0.vira'',
                                 mkVersion ''1.2.0'' ''https://h/notes.TXT'']\<rparr>]\<rparr>"

definition exampleConfig :: "(string \<times> string) list \<Rightarrow> Config" where
  "exampleConfig deps =
     \<lparr>Package = \<lparr>PackageName = ''app'', PackageVersion = ''0.1.0''\<rparr>, Dependencies = deps\<rparr>"

definition calmWorld :: "(string \<times> string) list \<Rightarrow> world" where
  "calmWorld deps =
     \<lparr>GOOS = ''linux'', binPath = ''/usr/lib/vira-lang/bin'', XDG_RUNTIME_DIR = [],
      Getuid = 1000,
      toml_Unmarshal = (\<lambda>data. Inr (exampleConfig deps)),
      json_Unmarshal = (\<lambda>data. Inr exampleIndex),
      MkdirTemp_world = Inr ''/tmp/b1'',
      MkdirAll_err = (\<lambda>tr path. None),
      WriteFile_err = (\<lambda>tr path. None),
      Create_err = (\<lambda>tr path. None),
      copyDir_world = (\<lambda>fs src dst. (None, fs)),
      http_Get = (\<lambda>tr url. Inr \<lparr>StatusCode = 200, Body = ''data'', BodyErr = None\<rparr>),
      NewConnection_err = (\<lambda>path. None),
      Pull_err = (\<lambda>image. None),
      CreateWithSpec_world = (\<lambda>spec. Inr ''c1''),
      Start_err = (\<lambda>containerID. None),
      exec_world = (\<lambda>tr conn containerID cmd. Exited [] 0),
      exec_effect = (\<lambda>tr cmd fs. fs),
      diagnostic_world = (\<lambda>tr cmd. (''rendered'', None))\<rparr>"

definition freshState :: state where
  "freshState = \<lparr>trace = [], files = [projectTOML \<mapsto> File ''[package]'']\<rparr>"


definition brokenDiagnostic :: world where
  "brokenDiagnostic =
     (calmWorld [])\<lparr>diagnostic_world := (\<lambda>tr cmd. ([], Some ''exec: no such file or directory''))\<rparr>"

definition cutTransfer :: world where
  "cutTransfer =
     (calmWorld [])\<lparr>http_Get :=
        (\<lambda>tr url. Inr \<lparr>StatusCode = 200, Body = ''par'', BodyErr = Some ''unexpected EOF''\<rparr>)\<rparr>"

text \<open>
  Builds of the example manifest: the environment is given the dependencies, the answer
  of every stage exec (the two package-manager execs succeed) and the answer to a request
  for an artifact. The states are those after the workspace is prepared, after the
  sandbox is started, after it is provisioned, and after the fetch of a dependency.
\<close>

definition scenario ::
  "(string \<times> string) list \<Rightarrow> (string list \<Rightarrow> exec_outcome) \<Rightarrow> (string + Response) \<Rightarrow> world" where
  "scenario deps stage artifact =
     (calmWorld deps)\<lparr>
        http_Get := (\<lambda>tr url. if url = indexURL
                       then Inr \<lparr>StatusCode = 200, Body = ''index'', BodyErr = None\<rparr>
                       else artifact),
        exec_world :=
          (\<lambda>tr conn containerID cmd. if take 1 cmd = [''apk''] then Exited [] 0 else stage cmd)\<rparr>"

definition stagesSucceed :: "string list \<Rightarrow> exec_outcome" where
  "stagesSucceed cmd = Exited [] 0"

definition served :: "string + Response" where
  "served = Inr \<lparr>StatusCode = 200, Body = ''data'', BodyErr = None\<rparr>"


definition preprocessorFails :: "string list \<Rightarrow> exec_outcome" where
  "preprocessorFails cmd =
     (if take 1 cmd = [''preprocessor''] then Exited ''line 3, column 9: unexpected token'' 1
      else Exited [] 0)"

definition preprocessorRefused :: "string list \<Rightarrow> exec_outcome" where
  "preprocessorRefused cmd =
     (if take 1 cmd = [''preprocessor''] then ExecCreateErr ''exec create failed''
      else Exited [] 0)"

definition podmanSocket :: string where
  "podmanSocket = ''unix:///run/user/1000/podman/podman.sock''"

definition prepared :: state where
  "prepared =
     \<lparr>trace = [Print Section [''Compiling Vira project''], HttpGet indexURL],
      files = [projectTOML \<mapsto> File ''[package]'', ''/tmp/b1'' \<mapsto> Dir,
               ''/tmp/b1/Project.toml'' \<mapsto> File ''[package]'',
               ''/tmp/b1/.virus_deps'' \<mapsto> Dir]\<rparr>"

definition started :: state where
  "started =
     prepared\<lparr>trace := trace prepared @
        [NewConnection podmanSocket, Pull wolfiImage,
         CreateWithSpec (sandboxSpec (calmWorld []) ''/tmp/b1''), Start ''c1'']\<rparr>"

definition provisioned :: state where
  "provisioned =
     started\<lparr>trace := trace started @
        [Exec (Connection podmanSocket) ''c1'' [''apk'', ''update''],
         Exec (Connection podmanSocket) ''c1''
           [''apk'', ''add'', ''--no-cache'', ''build-base'', ''gcc'', ''g++'']]\<rparr>"

definition fetched :: state where
  "fetched =
     provisioned\<lparr>
       trace := trace provisioned @
         [Print Info [''Downloading'', ''foo'', ''1.0.0''], HttpGet ''https://h/foo-1.0.0.vira''],
       files := (files provisioned)
         (''/tmp/b1/.virus_deps/foo/1.0.0'' \<mapsto> Dir,
          ''/tmp/b1/.virus_deps/foo/1.0.0/foo-1.0.0.vira'' \<mapsto> File ''data'')\<rparr>"

definition fetchedNotes :: state where
  "fetchedNotes =
     provisioned\<lparr>
       trace := trace provisioned @
         [Print Info [''Downloading'', ''foo'', ''1.2.0''], HttpGet ''https://h/notes.TXT''],
       files := (files provisioned)
         (''/tmp/b1/.virus_deps/foo/1.2.0'' \<mapsto> Dir,
          ''/tmp/b1/.virus_deps/foo/1.2.0/notes.TXT'' \<mapsto> File ''data'')\<rparr>"

definition fooLibrary :: Library where
  "fooLibrary = \<lparr>Name = ''foo'',
                  Versions = [mkVersion ''1.0.0'' ''https://h/foo-1.0.0.vira'',
                              mkVersion ''1.2.0'' ''https://h/notes.TXT'']\<rparr>"

section \<open>Resolver: helper lemmas\<close>

lemma HasPrefix_iff_prefix: "HasPrefix s pre \<longleftrightarrow> prefix pre s"
proof
  assume "HasPrefix s pre"
  then have "take (length pre) s = pre" by (simp add: HasPrefix_def)
  then have "s = pre @ drop (length pre) s" by (metis append_take_drop_id)
  then show "prefix pre s" by (metis prefixI)
next
  assume "prefix pre s"
  then obtain r where "s = pre @ r" by (auto elim: prefixE)
  then show "HasPrefix s pre" by (simp add: HasPrefix_def)
qed

lemma HasPrefix_Nil [simp]: "HasPrefix s []"
  by (simp add: HasPrefix_def)

lemma scanPrefix_find:
  "n \<le> length versions \<Longrightarrow>
   scanPrefix versions pre n = find (\<lambda>v. HasPrefix (Version v) pre) (rev (take n versions))"
proof (induction n)
  case 0
  then show ?case by simp
next
  case (Suc n)
  then have n: "n < length versions" by simp
  then have "take (Suc n) versions = take n versions @ [versions ! n]"
    by (simp add: take_Suc_conv_app_nth)
  with Suc show ?case by simp
qed

lemma scanExact_find:
  "n \<le> length versions \<Longrightarrow>
   scanExact versions spec n = find (\<lambda>v. Version v = spec) (rev (take n versions))"
proof (induction n)
  case 0
  then show ?case by simp
next
  case (Suc n)
  then have n: "n < length versions" by simp
  then have "take (Suc n) versions = take n versions @ [versions ! n]"
    by (simp add: take_Suc_conv_app_nth)
  with Suc show ?case by simp
qed

lemma resolveVersion_caret:
  "resolveVersion versions (CHR ''^'' # pre) =
     find (\<lambda>v. HasPrefix (Version v) pre) (rev versions)"
  by (simp add: resolveVersion_def HasPrefix_def scanPrefix_find)

lemma find_rev_newest:
  "i < length xs \<Longrightarrow> P (xs ! i) \<Longrightarrow> (\<forall>j. i < j \<and> j < length xs \<longrightarrow> \<not> P (xs ! j))
   \<Longrightarrow> find P (rev xs) = Some (xs ! i)"
proof (induction xs rule: rev_induct)
  case Nil
  then show ?case by simp
next
  case (snoc y ys)
  show ?case
  proof (cases "i = length ys")
    case True
    with snoc.prems(2) show ?thesis by simp
  next
    case False
    with snoc.prems(1) have i: "i < length ys" by simp
    from snoc.prems(3) i have ny: "\<not> P y"
      by (metis length_append_singleton lessI nth_append_length)
    have pi: "P (ys ! i)" using snoc.prems(2) i by (simp add: nth_append)
    have later: "\<forall>j. i < j \<and> j < length ys \<longrightarrow> \<not> P (ys ! j)"
    proof (intro allI impI)
      fix j assume j: "i < j \<and> j < length ys"
      then have "\<not> P ((ys @ [y]) ! j)" using snoc.prems(3) by simp
      with j show "\<not> P (ys ! j)" by (simp add: nth_append)
    qed
    from snoc.IH [OF i pi later] ny i show ?thesis by (simp add: nth_append)
  qed
qed

section \<open>Resolver: the claims\<close>

text \<open>
  C5. For every version list, resolving the spec \<open>*\<close> returns exactly the last element
  of the list, and returns NotFound (\<^term>\<open>None\<close>) if and only if the list is empty.
\<close>

theorem C5_star_returns_last:
  "(resolveVersion versions ''*'' = (if versions = [] then None else Some (last versions)))
   \<and> (resolveVersion versions ''*'' = None \<longleftrightarrow> versions = [])"
  by (simp add: resolveVersion_def last_conv_nth)

theorem C5_star_returns_last_witness:
  "resolveVersion [mkVersion ''1.0.0'' ''u1'', mkVersion ''1.2.0'' ''u2'',
                   mkVersion ''2.0.0'' ''u3''] ''*'' = Some (mkVersion ''2.0.0'' ''u3'')
   \<and> resolveVersion [] ''*'' = None"
  using C5_star_returns_last [of "[mkVersion ''1.0.0'' ''u1'', mkVersion ''1.2.0'' ''u2'',
                   mkVersion ''2.0.0'' ''u3'']"]
        C5_star_returns_last [of "[]"]
  by simp

text \<open>
  C6. For every version list and every spec beginning with \<open>^\<close>, the remainder after
  \<open>^\<close> is a literal textual prefix: the list is scanned from its newest (last) element
  to its oldest, the first version whose string has that prefix is returned, and the
  result is NotFound exactly when no version string has the prefix. Over
  \<open>["1.0.0", "1.2.0", "2.0.0"]\<close> the spec \<open>^1.\<close> resolves to \<open>1.2.0\<close>.
\<close>

theorem C6_caret_is_literal_prefix:
  "resolveVersion versions (CHR ''^'' # pre) =
     find (\<lambda>v. prefix pre (Version v)) (rev versions)
   \<and> (resolveVersion versions (CHR ''^'' # pre) = None
        \<longleftrightarrow> \<not> (\<exists>v \<in> set versions. prefix pre (Version v)))
   \<and> (\<forall>i. i < length versions \<and> prefix pre (Version (versions ! i))
          \<and> (\<forall>j. i < j \<and> j < length versions \<longrightarrow> \<not> prefix pre (Version (versions ! j)))
        \<longrightarrow> resolveVersion versions (CHR ''^'' # pre) = Some (versions ! i))
   \<and> map_option Version
        (resolveVersion [mkVersion ''1.0.0'' u1, mkVersion ''1.2.0'' u2,
                         mkVersion ''2.0.0'' u3] ''^1.'') = Some ''1.2.0''"
proof (intro conjI allI impI)
  show eq: "resolveVersion versions (CHR ''^'' # pre) =
     find (\<lambda>v. prefix pre (Version v)) (rev versions)"
    by (simp add: resolveVersion_caret HasPrefix_iff_prefix)
  show "resolveVersion versions (CHR ''^'' # pre) = None
        \<longleftrightarrow> \<not> (\<exists>v \<in> set versions. prefix pre (Version v))"
    by (simp add: eq find_None_iff Bex_def)
  show "map_option Version
        (resolveVersion [mkVersion ''1.0.0'' u1, mkVersion ''1.2.0'' u2,
                         mkVersion ''2.0.0'' u3] ''^1.'') = Some ''1.2.0''"
    by (simp add: resolveVersion_def HasPrefix_def mkVersion_def numeral_3_eq_3)
next
  fix i
  assume h: "i < length versions \<and> prefix pre (Version (versions ! i))
          \<and> (\<forall>j. i < j \<and> j < length versions \<longrightarrow> \<not> prefix pre (Version (versions ! j)))"
  then have i: "i < length versions" and p: "prefix pre (Version (versions ! i))"
    and later: "\<forall>j. i < j \<and> j < length versions \<longrightarrow> \<not> prefix pre (Version (versions ! j))"
    by simp_all
  have "find (\<lambda>v. prefix pre (Version v)) (rev versions) = Some (versions ! i)"
    using i p later by (rule find_rev_newest)
  then show "resolveVersion versions (CHR ''^'' # pre) = Some (versions ! i)"
    by (simp add: resolveVersion_caret HasPrefix_iff_prefix)
qed

theorem C6_caret_is_literal_prefix_witness:
  "resolveVersion [mkVersion ''1.0.0'' ''u1'', mkVersion ''1.2.0'' ''u2'',
                   mkVersion ''2.0.0'' ''u3''] ''^1.'' = Some (mkVersion ''1.2.0'' ''u2'')
   \<and> resolveVersion [mkVersion ''1.0.0'' ''u1'', mkVersion ''1.2.0'' ''u2'',
                   mkVersion ''2.0.0'' ''u3''] ''^3'' = None"
proof -
  let ?vs = "[mkVersion ''1.0.0'' ''u1'', mkVersion ''1.2.0'' ''u2'',
              mkVersion ''2.0.0'' ''u3'']"
  have a: "find (\<lambda>v. prefix ''1.'' (Version v)) (rev ?vs) = Some (mkVersion ''1.2.0'' ''u2'')"
    by (simp add: mkVersion_def)
  have b: "\<not> (\<exists>v \<in> set ?vs. prefix ''3'' (Version v))"
    by (simp add: mkVersion_def)
  from C6_caret_is_literal_prefix [of ?vs "''1.''"] a
  have 1: "resolveVersion ?vs ''^1.'' = Some (mkVersion ''1.2.0'' ''u2'')" by simp
  from C6_caret_is_literal_prefix [of ?vs "''3''"] b
  have 2: "resolveVersion ?vs ''^3'' = None" by blast
  from 1 2 show ?thesis by simp
qed

text \<open>
  C9. For every non-empty version list, resolving the spec \<open>^\<close> (caret with an empty
  remainder) returns the same version as resolving \<open>*\<close>: the empty prefix matches every
  version string, so the scan returns the last element of the list.
\<close>

theorem C9_bare_caret_equals_star:
  "versions \<noteq> [] \<Longrightarrow>
   resolveVersion versions ''^'' = resolveVersion versions ''*''
   \<and> resolveVersion versions ''^'' = Some (last versions)"
proof -
  assume ne: "versions \<noteq> []"
  then obtain n where n: "length versions = Suc n" by (cases versions) auto
  have "scanPrefix versions [] (Suc n) = Some (versions ! n)" by simp
  then have "resolveVersion versions ''^'' = Some (versions ! n)"
    by (simp add: resolveVersion_def HasPrefix_def n)
  moreover have "last versions = versions ! n" using ne n by (simp add: last_conv_nth)
  moreover have "resolveVersion versions ''*'' = Some (versions ! n)"
    by (simp add: resolveVersion_def n)
  ultimately show ?thesis by simp
qed

theorem C9_bare_caret_equals_star_witness:
  "resolveVersion [mkVersion ''1.0.0'' ''u1'', mkVersion ''2.0.0'' ''u3''] ''^''
     = resolveVersion [mkVersion ''1.0.0'' ''u1'', mkVersion ''2.0.0'' ''u3''] ''*''
   \<and> resolveVersion [mkVersion ''1.0.0'' ''u1'', mkVersion ''2.0.0'' ''u3''] ''^''
     = Some (mkVersion ''2.0.0'' ''u3'')"
proof -
  let ?vs = "[mkVersion ''1.0.0'' ''u1'', mkVersion ''2.0.0'' ''u3'']"
  have ne: "?vs \<noteq> []" by simp
  have l: "last ?vs = mkVersion ''2.0.0'' ''u3''" by simp
  from C9_bare_caret_equals_star [OF ne] show ?thesis unfolding l .
qed


section \<open>State and file lemmas\<close>

lemma trace_emit [simp]: "trace (emit e s) = trace s @ [e]"
  by (simp add: emit_def)

lemma files_emit [simp]: "files (emit e s) = files s"
  by (simp add: emit_def)

lemma transfers_append [simp]: "transfers (xs @ ys) = transfers xs + transfers ys"
  by (simp add: transfers_def)

lemma transfers_Print [simp]: "transfers [Print l a] = 0"
  by (simp add: transfers_def)

lemma transfers_HttpGet [simp]: "transfers [HttpGet u] = 1"
  by (simp add: transfers_def)

lemma MkdirAll_ok:
  "MkdirAll w path s = (None, s1) \<Longrightarrow>
   files s1 path = Some Dir \<and> trace s1 = trace s \<and> (\<forall>p. p \<noteq> path \<longrightarrow> files s1 p = files s p)
   \<and> (files s path = Some Dir \<longrightarrow> s1 = s)"
  by (auto simp: MkdirAll_def split: option.splits node.splits)

lemma Create_ok:
  "Create w path s = (None, s1) \<Longrightarrow>
   files s1 = (files s)(path \<mapsto> File []) \<and> trace s1 = trace s \<and> files s path \<noteq> Some Dir"
  by (auto simp: Create_def split: option.splits node.splits)

lemma download_ok:
  "downloadWithProgress w url target s = (None, s1) \<Longrightarrow>
   trace s1 = trace s @ [HttpGet url] \<and> (\<forall>p. p \<noteq> target \<longrightarrow> files s1 p = files s p)
   \<and> (\<exists>c. files s1 target = Some (File c))"
  by (auto simp: downloadWithProgress_def Let_def split: sum.splits prod.splits option.splits
        dest!: Create_ok)

section \<open>Scanner lemmas\<close>


lemma digit_char: "d < 10 \<Longrightarrow> of_char (char_of (48 + d :: nat)) = (48 + d :: nat)"
  by simp

lemma isDigit_digit: "d < 10 \<Longrightarrow> isDigit (char_of (48 + d :: nat))"
  by (simp add: isDigit_def)

lemma natDigits_all_digits: "\<forall>c \<in> set (natDigits n). isDigit c"
proof (induction n rule: natDigits.induct)
  case (1 n)
  show ?case
  proof (cases "n < 10")
    case True
    then show ?thesis by (subst natDigits.simps) (simp add: isDigit_digit)
  next
    case False
    have "isDigit (char_of (48 + n mod 10))" by (rule isDigit_digit) simp
    with False 1 show ?thesis by (subst natDigits.simps) simp
  qed
qed

lemma natDigits_nonempty: "natDigits n \<noteq> []"
  by (subst natDigits.simps) simp

lemma decimal_snoc: "decimal (ds @ [c]) = 10 * decimal ds + (int (of_char c) - 48)"
  by (simp add: decimal_def)

lemma decimal_natDigits: "decimal (natDigits n) = int n"
proof (induction n rule: natDigits.induct)
  case (1 n)
  show ?case
  proof (cases "n < 10")
    case True
    then show ?thesis by (subst natDigits.simps) (simp add: decimal_def)
  next
    case False
    have m: "of_char (char_of (48 + n mod 10)) = 48 + n mod 10" by (rule digit_char) simp
    from False 1 have ih: "decimal (natDigits (n div 10)) = int (n div 10)" by simp
    have "decimal (natDigits n) = 10 * int (n div 10) + int (n mod 10)"
      using False by (subst natDigits.simps) (simp add: decimal_snoc ih m)
    then show ?thesis by (simp add: zdiv_int zmod_int)
  qed
qed

lemma isDigit_facts: "isDigit c \<Longrightarrow> \<not> isSpace c \<and> c \<noteq> CHR ''+'' \<and> c \<noteq> CHR ''-'' \<and> c \<noteq> CHR ''_''"
  by (auto simp: isDigit_def isSpace_def)

lemma takeWhile_run: "\<forall>c \<in> set xs. P c \<Longrightarrow> takeWhile P ys = [] \<Longrightarrow> takeWhile P (xs @ ys) = xs"
  by (induction xs) auto

lemma dropWhile_run: "\<forall>c \<in> set xs. P c \<Longrightarrow> dropWhile P ys = ys \<Longrightarrow> dropWhile P (xs @ ys) = ys"
  by (induction xs) auto

lemma scanInt_natDigits:
  assumes n: "n < 2 ^ 63" and rest: "rest = [] \<or> \<not> isDigit (hd rest) \<and> hd rest \<noteq> CHR ''_''"
  shows "scanInt (natDigits n @ rest) = Some (int n, rest)"
proof -
  let ?P = "\<lambda>c. isDigit c \<or> c = CHR ''_''"
  obtain d ds where ds: "natDigits n = d # ds"
    using natDigits_nonempty [of n] by (cases "natDigits n") auto
  have dig: "\<forall>c \<in> set (d # ds). isDigit c" using natDigits_all_digits [of n] ds by simp
  then have d: "isDigit d" by simp
  note df = isDigit_facts [OF d]
  have allP: "\<forall>c \<in> set (d # ds). ?P c" using dig by blast
  have r0: "takeWhile ?P rest = []" "dropWhile ?P rest = rest"
    using rest by (cases rest; auto)+
  have tw: "takeWhile ?P ((d # ds) @ rest) = d # ds"
    using allP r0(1) by (rule takeWhile_run)
  have dw: "dropWhile ?P ((d # ds) @ rest) = rest"
    using allP r0(2) by (rule dropWhile_run)
  have nu: "CHR ''_'' \<notin> set (d # ds)" using dig isDigit_facts by blast
  have dec: "decimal (d # ds) = int n" using decimal_natDigits [of n] ds by simp
  have sp: "dropWhile isSpace ((d # ds) @ rest) = (d # ds) @ rest" using df by simp
  have bound: "\<not> (int n < - (2 ^ 63) \<or> 2 ^ 63 \<le> int n)"
  proof -
    have "int n < int (2 ^ 63)" using n by (simp only: of_nat_less_iff)
    then show ?thesis by simp
  qed
  have "scanInt ((d # ds) @ rest) = Some (int n, rest)"
    unfolding scanInt_def sp Let_def
    using df tw dw nu dec bound by (simp del: takeWhile.simps dropWhile.simps set_simps)
  then show ?thesis by (simp add: ds)
qed

lemma Split_nonempty: "Split s sep \<noteq> []"
  by (induction s) (auto split: list.splits)

lemma hd_Split: "hd (Split s sep) = takeWhile (\<lambda>c. c \<noteq> sep) s"
  using Split_nonempty by (induction s) (auto split: list.splits)

lemma Split_first: "length (Split s sep) > 0 \<and> Split s sep ! 0 = takeWhile (\<lambda>c. c \<noteq> sep) s"
  using Split_nonempty [of s sep] hd_Split [of s sep] by (simp add: hd_conv_nth)

lemma dropWhile_isSpace_natDigits: "dropWhile isSpace (natDigits n @ r) = natDigits n @ r"
proof -
  obtain d ds where ds: "natDigits n = d # ds"
    using natDigits_nonempty [of n] by (cases "natDigits n") auto
  have "isDigit d" using natDigits_all_digits [of n] ds by simp
  then have "\<not> isSpace d" by (simp add: isDigit_facts)
  then show ?thesis by (simp add: ds)
qed

lemma matchLit_prefix:
  "matchLit lit inp = (if HasPrefix inp lit then Some (drop (length lit) inp) else None)"
  by (induction lit inp rule: matchLit.induct) (auto simp: HasPrefix_def)

lemma Sscanf_no_prefix: "\<not> HasPrefix m ''line'' \<Longrightarrow> Sscanf_line_column m lc = lc"
  by (simp add: Sscanf_line_column_def matchLit_prefix)

lemma Sscanf_canonical:
  assumes L: "L < 2 ^ 63" and C: "C < 2 ^ 63"
    and rest: "rest = [] \<or> \<not> isDigit (hd rest) \<and> hd rest \<noteq> CHR ''_''"
  shows "Sscanf_line_column (''line '' @ natDigits L @ '', column '' @ natDigits C @ rest) lc
           = (int L, int C)"
proof -
  let ?r3 = "'', column '' @ natDigits C @ rest"
  have sp: "isSpace (CHR '' '')" by (simp add: isSpace_def)
  have m1: "matchLit ''line'' (''line '' @ natDigits L @ ?r3) = Some ('' '' @ natDigits L @ ?r3)"
    by simp
  have m2: "matchSpace ('' '' @ natDigits L @ ?r3) = Some (natDigits L @ ?r3)"
    using dropWhile_isSpace_natDigits sp by (simp add: matchSpace_def)
  have m3: "scanInt (natDigits L @ ?r3) = Some (int L, ?r3)"
    by (rule scanInt_natDigits [OF L]) (simp add: isDigit_def)
  have m4: "matchLit '','' ?r3 = Some ('' column '' @ natDigits C @ rest)"
    by simp
  have m5: "matchSpace ('' column '' @ natDigits C @ rest) = Some (''column '' @ natDigits C @ rest)"
    by (simp add: matchSpace_def isSpace_def)
  have m6: "matchLit ''column'' (''column '' @ natDigits C @ rest) = Some ('' '' @ natDigits C @ rest)"
    by simp
  have m7: "matchSpace ('' '' @ natDigits C @ rest) = Some (natDigits C @ rest)"
    using dropWhile_isSpace_natDigits sp by (simp add: matchSpace_def)
  have m8: "scanInt (natDigits C @ rest) = Some (int C, rest)"
    by (rule scanInt_natDigits [OF C rest])
  show ?thesis
    using m1 m2 m3 m4 m5 m6 m7 m8 by (simp add: Sscanf_line_column_def)
qed

lemma Contains_HasPrefix: "HasPrefix s p \<Longrightarrow> Contains s p"
  by (cases s) (auto simp: HasPrefix_def)

lemma Contains_prefix: "Contains (p @ r) p"
  by (rule Contains_HasPrefix) (simp add: HasPrefix_def)

lemma handleError_trace:
  "trace (handleError w sourceFile errorMsg s) =
     (let message = takeWhile (\<lambda>c. c \<noteq> CHR 0x0A) errorMsg;
          lc = (if Contains message ''line'' then Sscanf_line_column message (1, 1) else (1, 1));
          cmdDiag = [Join [binPath w, ''diagnostic''] @ (if GOOS w = ''windows'' then ''.exe'' else []),
                     ''--source'', sourceFile, ''--message'', message,
                     ''--line'', Itoa (fst lc), ''--column'', Itoa (snd lc)];
          r = diagnostic_world w
                (trace s @ [Print Error [''Error occurred. Running diagnostic...'']]) cmdDiag
      in trace s @ [Print Error [''Error occurred. Running diagnostic...''], RunCommand cmdDiag,
                    Print (if snd r \<noteq> None then Error else Info) [fst r]])"
  using Split_first [of errorMsg "CHR 0x0A"]
  by (simp add: handleError_def Let_def)

lemma handleError_files: "files (handleError w sourceFile errorMsg s) = files s"
  by (simp add: handleError_def Let_def)

section \<open>Diagnostic reporter: the claim\<close>

lemma natDigits_12: "natDigits 12 = ''12''" by code_simp
lemma natDigits_7: "natDigits 7 = ''7''" by code_simp

lemma Join_bin: "Join [''/usr/lib/vira-lang/bin'', ''diagnostic''] = ''/usr/lib/vira-lang/bin/diagnostic''"
  by code_simp




section \<open>Artifact store: the claims\<close>

text \<open>
  C3, as stated, fails: a transfer interrupted after the bytes \<open>par\<close> returns the
  error and leaves a file with these bytes at the destination path, where there was no
  file before.
\<close>

theorem C3_counterexample:
  "fst (downloadWithProgress cutTransfer ''https://h/foo-1.0.0.vira''
          ''/tmp/b1/.virus_deps/foo/1.0.0/foo-1.0.0.vira'' freshState) = Some ''unexpected EOF''
   \<and> files freshState ''/tmp/b1/.virus_deps/foo/1.0.0/foo-1.0.0.vira'' = None
   \<and> files (snd (downloadWithProgress cutTransfer ''https://h/foo-1.0.0.vira''
          ''/tmp/b1/.virus_deps/foo/1.0.0/foo-1.0.0.vira'' freshState))
        ''/tmp/b1/.virus_deps/foo/1.0.0/foo-1.0.0.vira'' = Some (File ''par'')"
  by (simp add: downloadWithProgress_def cutTransfer_def calmWorld_def freshState_def Create_def
        projectTOML_def)

lemma Create_result:
  "Create w path s =
     (if files s path = Some Dir then (Some ''is a directory'', s)
      else case Create_err w (trace s) path of
             Some e \<Rightarrow> (Some e, s)
           | None \<Rightarrow> (None, s\<lparr>files := (files s)(path \<mapsto> File [])\<rparr>))"
  by (auto simp: Create_def split: option.splits node.splits)

text \<open>
  C3 (amended). The content is streamed into the file at the destination path itself,
  created or truncated before the transfer; there is no temporary file and no rename.
  For every fetch that fails partway, the error is returned and the file at the
  destination path holds the bytes received before the failure. The destination is left
  as it was only when the request itself fails or the file cannot be created.
\<close>

theorem C3_failed_transfer_leaves_partial_file:
  "(http_Get w (trace s) url = Inr resp \<and> BodyErr resp = Some e \<and> files s target \<noteq> Some Dir
      \<and> Create_err w (trace s @ [HttpGet url]) target = None
     \<longrightarrow> fst (downloadWithProgress w url target s) = Some e
       \<and> files (snd (downloadWithProgress w url target s)) = (files s)(target \<mapsto> File (Body resp)))
   \<and> (http_Get w (trace s) url = Inl e
     \<longrightarrow> downloadWithProgress w url target s = (Some e, emit (HttpGet url) s))
   \<and> (http_Get w (trace s) url = Inr resp
      \<and> (files s target = Some Dir \<or> Create_err w (trace s @ [HttpGet url]) target = Some e)
     \<longrightarrow> fst (downloadWithProgress w url target s) \<noteq> None
       \<and> files (snd (downloadWithProgress w url target s)) = files s)"
  by (auto simp: downloadWithProgress_def Let_def Create_result)

theorem C3_failed_transfer_leaves_partial_file_witness:
  "fst (downloadWithProgress cutTransfer ''https://h/a.vira'' ''/tmp/b1/a.vira'' freshState)
     = Some ''unexpected EOF''
   \<and> files (snd (downloadWithProgress cutTransfer ''https://h/a.vira'' ''/tmp/b1/a.vira'' freshState))
       = (files freshState)(''/tmp/b1/a.vira'' \<mapsto> File ''par'')"
proof -
  have h: "http_Get cutTransfer (trace freshState) ''https://h/a.vira''
             = Inr \<lparr>StatusCode = 200, Body = ''par'', BodyErr = Some ''unexpected EOF''\<rparr>
      \<and> BodyErr \<lparr>StatusCode = 200, Body = ''par'', BodyErr = Some ''unexpected EOF''\<rparr>
             = Some ''unexpected EOF''
      \<and> files freshState ''/tmp/b1/a.vira'' \<noteq> Some Dir
      \<and> Create_err cutTransfer (trace freshState @ [HttpGet ''https://h/a.vira'']) ''/tmp/b1/a.vira'' = None"
    by (simp add: cutTransfer_def calmWorld_def freshState_def projectTOML_def)
  from C3_failed_transfer_leaves_partial_file [of cutTransfer freshState "''https://h/a.vira''"
      "\<lparr>StatusCode = 200, Body = ''par'', BodyErr = Some ''unexpected EOF''\<rparr>"
      "''unexpected EOF''" "''/tmp/b1/a.vira''"] h
  show ?thesis by simp
qed

lemma ensure_unfold:
  "ensure w depsDirTemp name version s =
     (case MkdirAll w (Join [depsDirTemp, name, Version version]) s of
        (Some e, s1) \<Rightarrow> OsExit (emit (Print Error [''Failed to create dep path:'', e]) s1)
      | (None, s1) \<Rightarrow>
          if files s1 (Join [Join [depsDirTemp, name, Version version], Base (URL version)]) = None
          then (case downloadWithProgress w (URL version)
                       (Join [Join [depsDirTemp, name, Version version], Base (URL version)])
                       (emit (Print Info [''Downloading'', name, Version version]) s1) of
                  (Some e, s3) \<Rightarrow> OsExit (emit (Print Error [''Failed to download:'', e]) s3)
                | (None, s3) \<Rightarrow>
                    Cont (Join [depsDirTemp, name, Version version], Base (URL version),
                          Join [Join [depsDirTemp, name, Version version], Base (URL version)]) s3)
          else Cont (Join [depsDirTemp, name, Version version], Base (URL version),
                     Join [Join [depsDirTemp, name, Version version], Base (URL version)]) s1)"
  by (simp add: ensure_def Let_def split: prod.splits option.splits)

lemma ensure_Cont:
  assumes "ensure w depsDirTemp name version s = Cont r s1"
  shows "r = (Join [depsDirTemp, name, Version version], Base (URL version),
              Join [Join [depsDirTemp, name, Version version], Base (URL version)])"
    and "files s1 (Join [depsDirTemp, name, Version version]) = Some Dir"
    and "files s1 (Join [Join [depsDirTemp, name, Version version], Base (URL version)]) \<noteq> None"
    and "transfers (trace s1) \<le> transfers (trace s) + 1"
    and "files s (Join [Join [depsDirTemp, name, Version version], Base (URL version)]) \<noteq> None
         \<Longrightarrow> transfers (trace s1) = transfers (trace s)
             \<and> files s1 (Join [Join [depsDirTemp, name, Version version], Base (URL version)])
               = files s (Join [Join [depsDirTemp, name, Version version], Base (URL version)])"
    and "files s (Join [Join [depsDirTemp, name, Version version], Base (URL version)]) = None
         \<Longrightarrow> Join [Join [depsDirTemp, name, Version version], Base (URL version)]
               \<noteq> Join [depsDirTemp, name, Version version]
         \<Longrightarrow> transfers (trace s1) = transfers (trace s) + 1"
proof -
  let ?d = "Join [depsDirTemp, name, Version version]"
  let ?t = "Join [?d, Base (URL version)]"
  let ?r = "(?d, Base (URL version), ?t)"
  from assms obtain sm where mk: "MkdirAll w ?d s = (None, sm)"
    by (auto simp: ensure_unfold split: prod.splits option.splits)
  from MkdirAll_ok [OF mk] have md: "files sm ?d = Some Dir" and mt: "trace sm = trace s"
    and mo: "\<And>p. p \<noteq> ?d \<Longrightarrow> files sm p = files s p" and mi: "files s ?d = Some Dir \<Longrightarrow> sm = s"
    by auto
  have all: "r = ?r \<and> files s1 ?d = Some Dir \<and> files s1 ?t \<noteq> None
      \<and> transfers (trace s1) \<le> transfers (trace s) + 1
      \<and> (files s ?t \<noteq> None \<longrightarrow> transfers (trace s1) = transfers (trace s) \<and> files s1 ?t = files s ?t)
      \<and> (files s ?t = None \<and> ?t \<noteq> ?d \<longrightarrow> transfers (trace s1) = transfers (trace s) + 1)"
  proof (cases "files sm ?t = None")
    case False
    with assms mk have e: "r = ?r" "s1 = sm" by (auto simp: ensure_unfold)
    have same: "files sm ?t = files s ?t" if "files s ?t \<noteq> None"
    proof (cases "?t = ?d")
      case True
      with that have "files s ?d \<noteq> None" by simp
      with mk have "sm = s" by (auto simp: MkdirAll_def split: option.splits node.splits)
      then show ?thesis by simp
    next
      case False
      then show ?thesis by (rule mo)
    qed
    have absent: "?t = ?d" if "files s ?t = None"
    proof (rule ccontr)
      assume "?t \<noteq> ?d"
      then have "files sm ?t = files s ?t" by (rule mo)
      with that False show False by simp
    qed
    from e md mt False same absent show ?thesis by auto
  next
    case True
    with md have ne: "?t \<noteq> ?d" by auto
    let ?s2 = "emit (Print Info [''Downloading'', name, Version version]) sm"
    from assms mk True have dl: "downloadWithProgress w (URL version) ?t ?s2 = (None, s1)" and e: "r = ?r"
      by (auto simp: ensure_unfold split: prod.splits option.splits)
    from download_ok [OF dl] have tr: "trace s1 = trace ?s2 @ [HttpGet (URL version)]"
      and keep: "\<And>p. p \<noteq> ?t \<Longrightarrow> files s1 p = files ?s2 p"
      and made: "files s1 ?t \<noteq> None"
      by auto
    have st: "files s ?t = None" using True mo [OF ne] by simp
    have sd: "files s1 ?d = Some Dir" using keep [of ?d] ne md by simp
    have n: "transfers (trace s1) = transfers (trace s) + 1"
      by (simp add: tr mt transfers_def)
    from e n made sd st show ?thesis by simp
  qed
  from all show "r = ?r" "files s1 ?d = Some Dir" "files s1 ?t \<noteq> None"
    "transfers (trace s1) \<le> transfers (trace s) + 1" by simp_all
  from all show "files s ?t \<noteq> None \<Longrightarrow> transfers (trace s1) = transfers (trace s) \<and> files s1 ?t = files s ?t"
    by simp
  from all show "files s ?t = None \<Longrightarrow> ?t \<noteq> ?d \<Longrightarrow> transfers (trace s1) = transfers (trace s) + 1"
    by simp
qed

lemma ensure_again:
  assumes d: "files s1 (Join [depsDirTemp, name, Version version]) = Some Dir"
    and t: "files s1 (Join [Join [depsDirTemp, name, Version version], Base (URL version)]) \<noteq> None"
  shows "ensure w' depsDirTemp name version s1 =
           Cont (Join [depsDirTemp, name, Version version], Base (URL version),
                 Join [Join [depsDirTemp, name, Version version], Base (URL version)]) s1"
proof -
  have "MkdirAll w' (Join [depsDirTemp, name, Version version]) s1 = (None, s1)"
    using d by (simp add: MkdirAll_def)
  moreover from t
  have "(files s1 (Join [Join [depsDirTemp, name, Version version], Base (URL version)]) = None)
          = False" by blast
  ultimately show ?thesis by (simp only: ensure_unfold prod.case option.case if_False)
qed


lemma Join_dep: "Join [''/tmp/b1/.virus_deps'', ''foo'', ''1.0.0''] = ''/tmp/b1/.virus_deps/foo/1.0.0''"
  by code_simp

lemma Base_url: "Base ''https://h/foo-1.0.0.vira'' = ''foo-1.0.0.vira''"
  by code_simp

lemma Join_target: "Join [''/tmp/b1/.virus_deps/foo/1.0.0'', ''foo-1.0.0.vira'']
   = ''/tmp/b1/.virus_deps/foo/1.0.0/foo-1.0.0.vira''"
  by code_simp



section \<open>Traces of the pipeline\<close>

lemma appended_refl [simp]: "appended P s s"
  by (simp add: appended_def)

lemma appended_trans: "appended P s s1 \<Longrightarrow> appended P s1 s2 \<Longrightarrow> appended P s s2"
  by (auto simp: appended_def)

lemma appended_files [simp]: "appended P s (s1\<lparr>files := f\<rparr>) = appended P s s1"
  by (simp add: appended_def)

lemma appended_filter:
  "appended P s s' \<Longrightarrow> (\<And>e. P e \<Longrightarrow> \<not> Q e) \<Longrightarrow> filter Q (trace s') = filter Q (trace s)"
  by (auto simp: appended_def list_all_iff filter_empty_conv)

lemma appended_mem: "appended P s s' \<Longrightarrow> e \<in> set (trace s) \<Longrightarrow> e \<in> set (trace s')"
  by (auto simp: appended_def)

lemma MkdirAll_trace [simp]: "trace (snd (MkdirAll w path s)) = trace s"
  by (auto simp: MkdirAll_def split: option.splits node.splits)

lemma WriteFile_trace [simp]: "trace (snd (WriteFile w path data s)) = trace s"
  by (auto simp: WriteFile_def split: option.splits node.splits)

lemma copyFile_trace [simp]: "trace (snd (copyFile w src dst s)) = trace s"
  by (auto simp: copyFile_def split: sum.splits)

lemma Create_trace [simp]: "trace (snd (Create w path s)) = trace s"
  by (auto simp: Create_def split: option.splits node.splits)

lemma download_trace [simp]:
  "trace (snd (downloadWithProgress w url target s)) = trace s @ [HttpGet url]"
proof -
  have "trace (snd (Create w target (emit (HttpGet url) s))) = trace s @ [HttpGet url]"
    by simp
  then show ?thesis
    by (cases "Create w target (emit (HttpGet url) s)")
       (auto simp: downloadWithProgress_def Let_def split: sum.splits option.splits)
qed

lemma exec_trace [simp]:
  "trace (snd (execInContainer w conn cid cmd s)) = trace s @ [Exec conn cid cmd]"
  by (auto simp: execInContainer_def Let_def split: exec_outcome.splits)

lemma isExec_simps [simp]:
  "isExec (Exec c i cmd)" "\<not> isExec (Print l a)" "\<not> isExec (RunCommand cmd)"
  "\<not> isExec (HttpGet u)" "\<not> isExec (Stop i)" "\<not> isExec (Remove i)"
  "\<not> isExec (CreateWithSpec sp)" "\<not> isExec (Start i)" "\<not> isExec (NewConnection p)"
  "\<not> isExec (Pull im)" "\<not> isExec (RemoveAll d)"
  by (simp_all add: isExec_def)

lemma handleError_execs [simp]:
  "filter isExec (trace (handleError w src msg s)) = filter isExec (trace s)"
  by (simp add: handleError_trace Let_def)

lemma exec_cases:
  obtains out exit err s1 where "execInContainer w conn cid cmd s = ((out, exit, err), s1)"
  by (metis prod.exhaust)

lemma exec_execs:
  "execInContainer w conn cid cmd s = (r, s1) \<Longrightarrow>
   filter isExec (trace s1) = filter isExec (trace s) @ [Exec conn cid cmd]"
  using exec_trace [of w conn cid cmd s] by simp

lemma compile_unrecognized:
  "ext \<noteq> ''.vira'' \<Longrightarrow> ext \<noteq> ''.c'' \<Longrightarrow> ext \<noteq> ''.cpp'' \<Longrightarrow>
   compileSourceInContainer w conn cid input output flags ext tempDir s =
     (None, emit (Print Section [''Compiling source:'', input]) s)"
  by (simp add: compileSourceInContainer_def)

lemma compile_single_stage:
  assumes ext: "ext = ''.c'' \<or> ext = ''.cpp''"
    and fail: "compileSourceInContainer w conn cid input output flags ext tempDir s = (Some e, s')"
  shows "\<exists>sb sa out exit err.
           execInContainer w conn cid (stages input output flags ext ! 0) sb = ((out, exit, err), sa)
         \<and> (err \<noteq> None \<or> exit \<noteq> 0)
         \<and> s' = handleError w (Replace1 (stageInput input 0) ''/work'' tempDir) out sa
         \<and> filter isExec (trace s') =
             filter isExec (trace s) @ map (Exec conn cid) (take (Suc 0) (stages input output flags ext))"
proof -
  let ?s0 = "emit (Print Section [''Compiling source:'', input]) s"
  let ?cmd = "stages input output flags ext ! 0"
  obtain out exit err sa where x: "execInContainer w conn cid ?cmd ?s0 = ((out, exit, err), sa)"
    by (rule exec_cases)
  have ex: "filter isExec (trace sa) = filter isExec (trace s) @ [Exec conn cid ?cmd]"
    using exec_execs [OF x] by simp
  from ext fail x have f: "err \<noteq> None \<or> exit \<noteq> 0"
    and s': "s' = handleError w (Replace1 input ''/work'' tempDir) out sa"
    by (auto simp: compileSourceInContainer_def stages_def split: if_splits)
  have tk: "take (Suc 0) (stages input output flags ext) = [?cmd]"
    using ext by (auto simp: stages_def)
  have "execInContainer w conn cid ?cmd ?s0 = ((out, exit, err), sa)
      \<and> (err \<noteq> None \<or> exit \<noteq> 0)
      \<and> s' = handleError w (Replace1 (stageInput input 0) ''/work'' tempDir) out sa
      \<and> filter isExec (trace s') =
          filter isExec (trace s) @ map (Exec conn cid) (take (Suc 0) (stages input output flags ext))"
    using x f s' ex tk by (simp add: stageInput_def)
  then show ?thesis by blast
qed

lemma compile_pre_fails:
  assumes x: "execInContainer w conn cid (([''preprocessor''] @ flags) @ [input, input @ ''.pre''])
                (emit (Print Section [''Compiling source:'', input]) s) = ((out, exit, err), sa)"
    and f: "err \<noteq> None \<or> exit \<noteq> 0"
  shows "compileSourceInContainer w conn cid input output flags ''.vira'' tempDir s =
           (Some (''preprocess failed: '' @ out),
            handleError w (Replace1 input ''/work'' tempDir) out sa)"
    and "filter isExec (trace (handleError w (Replace1 input ''/work'' tempDir) out sa)) =
           filter isExec (trace s)
             @ [Exec conn cid (([''preprocessor''] @ flags) @ [input, input @ ''.pre''])]"
proof -
  show "compileSourceInContainer w conn cid input output flags ''.vira'' tempDir s =
           (Some (''preprocess failed: '' @ out),
            handleError w (Replace1 input ''/work'' tempDir) out sa)"
    using x f by (auto simp: compileSourceInContainer_def)
  show "filter isExec (trace (handleError w (Replace1 input ''/work'' tempDir) out sa)) =
           filter isExec (trace s)
             @ [Exec conn cid (([''preprocessor''] @ flags) @ [input, input @ ''.pre''])]"
    using exec_execs [OF x] by simp
qed

lemma compile_vira_stages:
  assumes fail: "compileSourceInContainer w conn cid input output flags ''.vira'' tempDir s = (Some e, s')"
  shows "\<exists>k sb sa out exit err. k < 3
         \<and> execInContainer w conn cid (stages input output flags ''.vira'' ! k) sb = ((out, exit, err), sa)
         \<and> (err \<noteq> None \<or> exit \<noteq> 0)
         \<and> s' = handleError w (Replace1 (stageInput input k) ''/work'' tempDir) out sa
         \<and> filter isExec (trace s') =
             filter isExec (trace s) @ map (Exec conn cid) (take (Suc k) (stages input output flags ''.vira''))"
proof -
  let ?st = "stages input output flags ''.vira''"
  let ?pre = "([''preprocessor''] @ flags) @ [input, input @ ''.pre'']"
  let ?plsa = "[''plsa'', input @ ''.pre'']"
  let ?comp = "[''compiler'', input @ ''.pre'', output]"
  have st: "?st = [?pre, ?plsa, ?comp]" by (simp add: stages_def)
  let ?s0 = "emit (Print Section [''Compiling source:'', input]) s"
  obtain o1 e1 r1 s1 where x1: "execInContainer w conn cid ?pre ?s0 = ((o1, e1, r1), s1)"
    by (rule exec_cases)
  have t1: "filter isExec (trace s1) = filter isExec (trace s) @ [Exec conn cid ?pre]"
    using exec_execs [OF x1] by simp
  show ?thesis
  proof (cases "r1 \<noteq> None \<or> e1 \<noteq> 0")
    case True
    with fail x1 have s': "s' = handleError w (Replace1 input ''/work'' tempDir) o1 s1"
      by (auto simp: compileSourceInContainer_def)
    have "(0::nat) < 3 \<and> execInContainer w conn cid (?st ! 0) ?s0 = ((o1, e1, r1), s1)
        \<and> (r1 \<noteq> None \<or> e1 \<noteq> 0)
        \<and> s' = handleError w (Replace1 (stageInput input 0) ''/work'' tempDir) o1 s1
        \<and> filter isExec (trace s') =
             filter isExec (trace s) @ map (Exec conn cid) (take (Suc 0) ?st)"
      using True x1 s' t1 by (simp add: st stageInput_def)
    then show ?thesis by blast
  next
    case ok1: False
    let ?s2 = "emit (Print Success [''Preprocessing done'']) s1"
    obtain o2 e2 r2 s3 where x2: "execInContainer w conn cid ?plsa ?s2 = ((o2, e2, r2), s3)"
      by (rule exec_cases)
    have t3: "filter isExec (trace s3) = filter isExec (trace s) @ [Exec conn cid ?pre, Exec conn cid ?plsa]"
      using exec_execs [OF x2] t1 by simp
    show ?thesis
    proof (cases "r2 \<noteq> None \<or> e2 \<noteq> 0")
      case True
      with fail x1 ok1 x2 have s': "s' = handleError w (Replace1 (input @ ''.pre'') ''/work'' tempDir) o2 s3"
        by (auto simp: compileSourceInContainer_def)
      have "(1::nat) < 3 \<and> execInContainer w conn cid (?st ! 1) ?s2 = ((o2, e2, r2), s3)
          \<and> (r2 \<noteq> None \<or> e2 \<noteq> 0)
          \<and> s' = handleError w (Replace1 (stageInput input 1) ''/work'' tempDir) o2 s3
          \<and> filter isExec (trace s') =
               filter isExec (trace s) @ map (Exec conn cid) (take (Suc 1) ?st)"
        using True x2 s' t3 by (simp add: st stageInput_def)
      then show ?thesis by blast
    next
      case ok2: False
      let ?s4 = "emit (Print Success [''PLSA done'']) s3"
      obtain o3 e3 r3 s5 where x3: "execInContainer w conn cid ?comp ?s4 = ((o3, e3, r3), s5)"
        by (rule exec_cases)
      have t5: "filter isExec (trace s5) =
                  filter isExec (trace s) @ [Exec conn cid ?pre, Exec conn cid ?plsa, Exec conn cid ?comp]"
        using exec_execs [OF x3] t3 by simp
      from fail x1 ok1 x2 ok2 x3 have f3: "r3 \<noteq> None \<or> e3 \<noteq> 0"
        and s': "s' = handleError w (Replace1 (input @ ''.pre'') ''/work'' tempDir) o3 s5"
        by (auto simp: compileSourceInContainer_def split: if_splits)
      have "(2::nat) < 3 \<and> execInContainer w conn cid (?st ! 2) ?s4 = ((o3, e3, r3), s5)
          \<and> (r3 \<noteq> None \<or> e3 \<noteq> 0)
          \<and> s' = handleError w (Replace1 (stageInput input 2) ''/work'' tempDir) o3 s5
          \<and> filter isExec (trace s') =
               filter isExec (trace s) @ map (Exec conn cid) (take (Suc 2) ?st)"
        using f3 x3 s' t5 by (simp add: st stageInput_def numeral_2_eq_2)
      then show ?thesis by blast
    qed
  qed
qed

lemma compile_failure:
  assumes fail: "compileSourceInContainer w conn cid input output flags ext tempDir s = (Some e, s')"
  shows "\<exists>k sb sa out exit err. k < length (stages input output flags ext)
         \<and> execInContainer w conn cid (stages input output flags ext ! k) sb = ((out, exit, err), sa)
         \<and> (err \<noteq> None \<or> exit \<noteq> 0)
         \<and> s' = handleError w (Replace1 (stageInput input k) ''/work'' tempDir) out sa
         \<and> filter isExec (trace s') =
             filter isExec (trace s) @ map (Exec conn cid) (take (Suc k) (stages input output flags ext))"
proof -
  consider (vira) "ext = ''.vira''" | (single) "ext = ''.c'' \<or> ext = ''.cpp''"
    | (other) "ext \<noteq> ''.vira''" "ext \<noteq> ''.c''" "ext \<noteq> ''.cpp''"
    by blast
  then show ?thesis
  proof cases
    case vira
    have len: "length (stages input output flags ''.vira'') = 3" by (simp add: stages_def)
    from compile_vira_stages [OF fail [unfolded vira]] show ?thesis
      unfolding vira len .
  next
    case single
    then have len: "0 < length (stages input output flags ext)" by (auto simp: stages_def)
    from compile_single_stage [OF single fail] len show ?thesis by blast
  next
    case other
    with fail show ?thesis by (simp add: compile_unrecognized)
  qed
qed

lemma depsLoop_append:
  "depsLoop w cid index tempDir depsDirTemp (pre @ deps) acc s =
     (case depsLoop w cid index tempDir depsDirTemp pre acc s of
        OsExit s1 \<Rightarrow> OsExit s1
      | Cont acc1 s1 \<Rightarrow> depsLoop w cid index tempDir depsDirTemp deps acc1 s1)"
proof (induction pre arbitrary: acc s)
  case Nil
  show ?case by simp
next
  case (Cons dep pre)
  show ?case
    by (cases "depStep w cid index tempDir depsDirTemp dep acc s") (simp_all add: Cons.IH)
qed

lemma depsLoop_at:
  assumes "depsLoop w cid index tempDir depsDirTemp pre acc s = Cont acc1 s1"
    and "depStep w cid index tempDir depsDirTemp dep acc1 s1 = OsExit s2"
  shows "depsLoop w cid index tempDir depsDirTemp (pre @ dep # rest) acc s = OsExit s2"
  using assms by (simp add: depsLoop_append)

lemma compileProject_deps_exit:
  assumes "prepareWorkspace w s = Cont (config, tempDir, depsDirTemp, index) s1"
    and "startSandbox w tempDir s1 = Cont (conn, cid) s2"
    and "provision w conn cid s2 = Cont u s3"
    and "depsLoop w cid index tempDir depsDirTemp (Dependencies config) ([], []) s3 = OsExit s4"
  shows "compileProject w s = ExitCode1 s4"
  using assms by (simp add: compileProject_def)

lemma compileProject_main_exit:
  assumes "prepareWorkspace w s = Cont (config, tempDir, depsDirTemp, index) s1"
    and "startSandbox w tempDir s1 = Cont (conn, cid) s2"
    and "provision w conn cid s2 = Cont u s3"
    and "depsLoop w cid index tempDir depsDirTemp (Dependencies config) ([], []) s3 = Cont acc s4"
    and "buildMain w conn cid config tempDir acc s4 = OsExit s5"
  shows "compileProject w s = ExitCode1 s5"
  using assms by (simp add: compileProject_def)

lemma depStep_compile_fails:
  assumes lib: "findLibrary index name = Some lib"
    and ver: "resolveVersion (Versions lib) versionSpec = Some version"
    and ens: "ensure w depsDirTemp name version s = Cont (depPath, fileName, targetFile) s1"
    and fail: "compileSourceInContainer w Background cid (Replace1 targetFile tempDir ''/work'')
                 (Replace1 depPath tempDir ''/work'' @ ''/lib.o'') [] (ToLower (Ext fileName)) tempDir s1
               = (Some e, s2)"
  shows "depStep w cid index tempDir depsDirTemp (name, versionSpec) acc s = OsExit s2"
proof -
  have "ToLower (Ext fileName) = ''.vira'' \<or> ToLower (Ext fileName) = ''.c''
        \<or> ToLower (Ext fileName) = ''.cpp''"
    using fail compile_unrecognized [of "ToLower (Ext fileName)" w Background cid] by fastforce
  then show ?thesis
    using lib ver ens fail by (simp add: depStep_def Let_def)
qed

lemma depStep_skip:
  assumes lib: "findLibrary index name = Some lib"
    and ver: "resolveVersion (Versions lib) versionSpec = Some version"
    and ens: "ensure w depsDirTemp name version s = Cont (depPath, fileName, targetFile) s1"
    and ext: "ToLower (Ext fileName) \<notin> {''.vira'', ''.c'', ''.cpp''}"
  shows "depStep w cid index tempDir depsDirTemp (name, versionSpec) (depPaths, objs) s
           = Cont (depPaths @ [depPath], objs) s1"
  using lib ver ens ext by (simp add: depStep_def Let_def)

lemma buildMain_compile_fails:
  assumes "compileSourceInContainer w Background cid ''/work/src/main.vira'' ''/work/main.o''
             (map (\<lambda>depPath. ''-I'' @ Replace1 depPath tempDir ''/work'') (fst acc)) ''.vira'' tempDir s
           = (Some e, s1)"
  shows "buildMain w conn cid config tempDir acc s = OsExit s1"
  using assms by (simp add: buildMain_def Let_def)

lemma ensure_exit_appended:
  assumes "\<And>l a. P (Print l a)" and "\<And>u. P (HttpGet u)"
    and ex: "ensure w depsDirTemp name version s = OsExit s1"
  shows "appended P s s1"
proof -
  let ?d = "Join [depsDirTemp, name, Version version]"
  let ?t = "Join [?d, Base (URL version)]"
  obtain r sm where mk: "MkdirAll w ?d s = (r, sm)" by (cases "MkdirAll w ?d s") auto
  have tm: "trace sm = trace s" using MkdirAll_trace [of w ?d s] mk by simp
  show ?thesis
  proof (cases r)
    case (Some e)
    with ex mk have "s1 = emit (Print Error [''Failed to create dep path:'', e]) sm"
      by (simp add: ensure_unfold)
    then show ?thesis using assms(1) tm by (simp add: appended_def)
  next
    case None
    let ?s2 = "emit (Print Info [''Downloading'', name, Version version]) sm"
    obtain r2 s3 where dl: "downloadWithProgress w (URL version) ?t ?s2 = (r2, s3)"
      by (cases "downloadWithProgress w (URL version) ?t ?s2") auto
    have t3: "trace s3 = trace s @ [Print Info [''Downloading'', name, Version version], HttpGet (URL version)]"
      using download_trace [of w "URL version" ?t ?s2] dl tm by simp
    from ex mk None dl obtain e where "s1 = emit (Print Error [''Failed to download:'', e]) s3"
      by (auto simp: ensure_unfold split: if_splits option.splits)
    then show ?thesis using assms(1,2) t3 by (simp add: appended_def)
  qed
qed

lemma depStep_abort:
  assumes "\<And>l a. P (Print l a)" and "\<And>u. P (HttpGet u)"
    and ab: "fetchAborts w index depsDirTemp dep s"
  shows "\<exists>s1. depStep w cid index tempDir depsDirTemp dep acc s = OsExit s1 \<and> appended P s s1"
proof (cases "findLibrary index (fst dep)")
  case None
  then have "depStep w cid index tempDir depsDirTemp dep acc s
               = OsExit (emit (Print Error [''Library not found:'', fst dep]) s)"
    by (simp add: depStep_def Let_def)
  moreover have "appended P s (emit (Print Error [''Library not found:'', fst dep]) s)"
    using assms(1) by (simp add: appended_def)
  ultimately show ?thesis by blast
next
  case lib: (Some lib)
  show ?thesis
  proof (cases "resolveVersion (Versions lib) (snd dep)")
    case None
    with lib have "depStep w cid index tempDir depsDirTemp dep acc s
               = OsExit (emit (Print Error [''No matching version for'', fst dep, snd dep]) s)"
      by (simp add: depStep_def Let_def)
    moreover have "appended P s (emit (Print Error [''No matching version for'', fst dep, snd dep]) s)"
      using assms(1) by (simp add: appended_def)
    ultimately show ?thesis by blast
  next
    case ver: (Some version)
    from ab lib ver obtain s1 where ex: "ensure w depsDirTemp (fst dep) version s = OsExit s1"
      by (auto simp: fetchAborts_def split: res.splits)
    with lib ver have "depStep w cid index tempDir depsDirTemp dep acc s = OsExit s1"
      by (simp add: depStep_def Let_def)
    moreover have "appended P s s1"
      using ensure_exit_appended [OF assms(1,2) ex] .
    ultimately show ?thesis by blast
  qed
qed

lemma running_simps [simp]:
  "running (Print l a)" "running (HttpGet u)" "running (NewConnection p)" "running (Pull im)"
  "running (CreateWithSpec sp)" "running (Start i)" "running (Exec c i cmd)"
  "running (RunCommand cmd)" "running (RemoveAll d)" "\<not> running (Stop i)" "\<not> running (Remove i)"
  by (simp_all add: running_def isStop_def isRemove_def)

lemma exec_traceD:
  "execInContainer w conn cid cmd s1 = (r, s2) \<Longrightarrow> trace s2 = trace s1 @ [Exec conn cid cmd]"
  using exec_trace [of w conn cid cmd s1] by simp

lemma MkdirAll_traceD: "MkdirAll w path s1 = (r, s2) \<Longrightarrow> trace s2 = trace s1"
  using MkdirAll_trace [of w path s1] by simp

lemma copyFile_traceD: "copyFile w src dst s1 = (r, s2) \<Longrightarrow> trace s2 = trace s1"
  using copyFile_trace [of w src dst s1] by simp

lemma download_traceD:
  "downloadWithProgress w url target s1 = (r, s2) \<Longrightarrow> trace s2 = trace s1 @ [HttpGet url]"
  using download_trace [of w url target s1] by simp

lemma compile_running:
  "compileSourceInContainer w conn cid input output flags ext tempDir s1 = (r, s2)
   \<Longrightarrow> appended running s1 s2"
  unfolding compileSourceInContainer_def Let_def
  by (auto simp: appended_def handleError_trace Let_def split: if_splits prod.splits
        dest!: exec_traceD)

lemma ensure_running:
  "appended running s1 (resState (ensure w depsDirTemp name version s1))"
  unfolding ensure_unfold resState_def
  by (auto simp: appended_def split: if_splits prod.splits option.splits
        dest!: MkdirAll_traceD download_traceD)

lemma depStep_running:
  "appended running s1 (resState (depStep w cid index tempDir depsDirTemp dep acc s1))"
proof -
  have e: "appended running s1 s2"
    if "ensure w depsDirTemp (fst dep) version s1 = Cont r s2 \<or>
        ensure w depsDirTemp (fst dep) version s1 = OsExit s2" for version r s2
    using ensure_running [of s1 w depsDirTemp "fst dep" version] that
    by (auto simp: resState_def)
  have c: "appended running s1 s3"
    if "appended running s1 s2"
      and "compileSourceInContainer w conn cid' inp outp flags ext tempDir s2 = (r, s3)"
    for s2 s3 conn cid' inp outp flags ext r
    using that compile_running appended_trans by blast
  show ?thesis
    unfolding depStep_def Let_def resState_def
    by (auto split: option.splits res.splits prod.splits if_splits
          simp: appended_def [of running s1 "emit e s1" for e] intro: e c)
qed

lemma depsLoop_running:
  "appended running s1 (resState (depsLoop w cid index tempDir depsDirTemp deps acc s1))"
proof (induction deps arbitrary: acc s1)
  case Nil
  then show ?case by (simp add: resState_def)
next
  case (Cons dep deps)
  show ?case
  proof (cases "depStep w cid index tempDir depsDirTemp dep acc s1")
    case (OsExit s2)
    with depStep_running [of s1 w cid index tempDir depsDirTemp dep acc]
    show ?thesis by (simp add: resState_def)
  next
    case (Cont acc2 s2)
    with depStep_running [of s1 w cid index tempDir depsDirTemp dep acc]
    have "appended running s1 s2" by (simp add: resState_def)
    from appended_trans [OF this Cons.IH [of s2 acc2]] Cont
    show ?thesis by simp
  qed
qed

lemma startSandbox_Cont:
  assumes "startSandbox w tempDir s1 = Cont (conn, cid) s2"
  shows "trace s2 = trace s1 @ [NewConnection (socketPathOf w), Pull wolfiImage,
                                 CreateWithSpec (sandboxSpec w tempDir), Start cid]"
    and "conn = Connection (socketPathOf w)"
    and "files s2 = files s1"
  using assms
  by (auto simp: startSandbox_def socketPathOf_def Let_def split: option.splits sum.splits)

lemma startSandbox_running:
  "appended running s1 (resState (startSandbox w tempDir s1))"
  by (auto simp: startSandbox_def Let_def resState_def appended_def
        split: option.splits sum.splits)

lemma provision_running:
  "appended running s1 (resState (provision w conn cid s1))"
  by (auto simp: provision_def resState_def appended_def split: prod.splits if_splits
        dest!: exec_traceD)

lemma provision_Cont:
  assumes "provision w conn cid s2 = Cont u s3"
  shows "trace s3 = trace s2 @ [Exec conn cid [''apk'', ''update''],
            Exec conn cid [''apk'', ''add'', ''--no-cache'', ''build-base'', ''gcc'', ''g++'']]"
  using assms
  by (auto simp: provision_def split: prod.splits if_splits dest!: exec_traceD)

lemma downloadIndex_traceD:
  "downloadIndex w s1 = (r, s2) \<Longrightarrow> trace s2 = trace s1 @ [HttpGet indexURL]"
  by (auto simp: downloadIndex_def Let_def split: sum.splits option.splits)

lemma prepareWorkspace_running:
  "appended running s1 (resState (prepareWorkspace w s1))"
  unfolding prepareWorkspace_def Let_def resState_def
  by (auto simp: appended_def split: sum.splits prod.splits option.splits if_splits
        dest!: MkdirAll_traceD copyFile_traceD downloadIndex_traceD)

lemma buildMain_running:
  "appended running s1 (resState (buildMain w conn cid config tempDir acc s1))"
proof -
  have c: "appended running s1 s2"
    if "compileSourceInContainer w c' cid' inp outp flags ext tempDir s1 = (r, s2)"
    for s2 c' cid' inp outp flags ext r
    using that by (rule compile_running)
  show ?thesis
    unfolding buildMain_def Let_def resState_def
    by (auto simp: appended_def split: prod.splits option.splits if_splits
          dest!: c [unfolded appended_def] exec_traceD MkdirAll_traceD copyFile_traceD)
qed

lemma compileProject_running:
  assumes "compileProject w s = ExitCode1 s'"
  shows "appended running s s'"
proof (cases "prepareWorkspace w s")
  case (OsExit s1)
  with assms have "s' = s1" by (simp add: compileProject_def)
  with prepareWorkspace_running [of s w] OsExit show ?thesis by (simp add: resState_def)
next
  case (Cont v s1)
  obtain config tempDir depsDirTemp index where v: "v = (config, tempDir, depsDirTemp, index)"
    by (cases v) auto
  have a1: "appended running s s1"
    using prepareWorkspace_running [of s w] Cont by (simp add: resState_def)
  show ?thesis
  proof (cases "startSandbox w tempDir s1")
    case (OsExit s2)
    with assms Cont v have "s' = s2" by (simp add: compileProject_def)
    with startSandbox_running [of s1 w tempDir] OsExit a1 show ?thesis
      by (auto simp: resState_def intro: appended_trans)
  next
    case sb: (Cont c s2)
    obtain conn cid where c: "c = (conn, cid)" by (cases c) auto
    have a2: "appended running s s2"
      using startSandbox_running [of s1 w tempDir] sb a1
      by (auto simp: resState_def intro: appended_trans)
    show ?thesis
    proof (cases "provision w conn cid s2")
      case (OsExit s3)
      with assms Cont v sb c have "s' = s3" by (simp add: compileProject_def)
      with provision_running [of s2 w conn cid] OsExit a2 show ?thesis
        by (auto simp: resState_def intro: appended_trans)
    next
      case pv: (Cont u s3)
      have a3: "appended running s s3"
        using provision_running [of s2 w conn cid] pv a2
        by (auto simp: resState_def intro: appended_trans)
      show ?thesis
      proof (cases "depsLoop w cid index tempDir depsDirTemp (Dependencies config) ([], []) s3")
        case (OsExit s4)
        with assms Cont v sb c pv have "s' = s4" by (simp add: compileProject_def)
        with depsLoop_running [of s3 w cid index tempDir depsDirTemp "Dependencies config" "([], [])"]
          OsExit a3 show ?thesis
          by (auto simp: resState_def intro: appended_trans)
      next
        case dl: (Cont acc s4)
        have a4: "appended running s s4"
          using depsLoop_running [of s3 w cid index tempDir depsDirTemp "Dependencies config" "([], [])"]
            dl a3 by (auto simp: resState_def intro: appended_trans)
        show ?thesis
        proof (cases "buildMain w conn cid config tempDir acc s4")
          case (OsExit s5)
          with assms Cont v sb c pv dl have "s' = s5" by (simp add: compileProject_def)
          with buildMain_running [of s4 w conn cid config tempDir acc] OsExit a4 show ?thesis
            by (auto simp: resState_def intro: appended_trans)
        next
          case bm: (Cont u5 s5)
          with assms Cont v sb c pv dl show ?thesis by (simp add: compileProject_def)
        qed
      qed
    qed
  qed
qed

lemma exit_no_teardown:
  assumes "compileProject w s = ExitCode1 s'"
  shows "filter isStop (trace s') = filter isStop (trace s)"
    and "filter isRemove (trace s') = filter isRemove (trace s)"
  using appended_filter [OF compileProject_running [OF assms], of isStop]
        appended_filter [OF compileProject_running [OF assms], of isRemove]
  by (simp_all add: running_def)

text \<open>
  When \<^verbatim>\<open>compileProject\<close> returns, the deferred teardown has run once, at the end.
\<close>

lemma return_runs_teardown:
  assumes "compileProject w s = Returned s'"
  shows "\<exists>tempDir cid s5. appended running s s5
           \<and> trace s' = trace s5 @ [Stop cid, Remove cid, RemoveAll tempDir]"
proof -
  from assms obtain config tempDir depsDirTemp index s1
    where prep: "prepareWorkspace w s = Cont (config, tempDir, depsDirTemp, index) s1"
    by (auto simp: compileProject_def split: res.splits prod.splits)
  from assms prep obtain conn cid s2
    where sb: "startSandbox w tempDir s1 = Cont (conn, cid) s2"
    by (auto simp: compileProject_def split: res.splits prod.splits)
  from assms prep sb obtain u s3
    where pv: "provision w conn cid s2 = Cont u s3"
    by (auto simp: compileProject_def split: res.splits prod.splits)
  from assms prep sb pv obtain acc s4
    where dl: "depsLoop w cid index tempDir depsDirTemp (Dependencies config) ([], []) s3 = Cont acc s4"
    by (auto simp: compileProject_def split: res.splits prod.splits)
  from assms prep sb pv dl obtain u5 s5
    where bm: "buildMain w conn cid config tempDir acc s4 = Cont u5 s5"
    by (auto simp: compileProject_def split: res.splits prod.splits)
  from assms prep sb pv dl bm have s': "s' = RemoveAllFiles tempDir (teardown cid s5)"
    by (simp add: compileProject_def)
  have a1: "appended running s s1"
    using prepareWorkspace_running [of s w] prep by (simp add: resState_def)
  have a2: "appended running s1 s2"
    using startSandbox_running [of s1 w tempDir] sb by (simp add: resState_def)
  have a3: "appended running s2 s3"
    using provision_running [of s2 w conn cid] pv by (simp add: resState_def)
  have a4: "appended running s3 s4"
    using depsLoop_running [of s3 w cid index tempDir depsDirTemp "Dependencies config" "([], [])"] dl
    by (simp add: resState_def)
  have a5: "appended running s4 s5"
    using buildMain_running [of s4 w conn cid config tempDir acc] bm by (simp add: resState_def)
  have a: "appended running s s5"
    using a1 a2 a3 a4 a5 by (blast intro: appended_trans)
  have t: "trace s' = trace s5 @ [Stop cid, Remove cid, RemoveAll tempDir]"
    by (simp add: s' RemoveAllFiles_def teardown_def)
  from a t show ?thesis by blast
qed

section \<open>Evaluation of the example builds\<close>

lemma scenario_fields [simp]:
  "GOOS (scenario deps stage artifact) = ''linux''"
  "binPath (scenario deps stage artifact) = ''/usr/lib/vira-lang/bin''"
  "XDG_RUNTIME_DIR (scenario deps stage artifact) = []"
  "Getuid (scenario deps stage artifact) = 1000"
  "toml_Unmarshal (scenario deps stage artifact) d = Inr (exampleConfig deps)"
  "json_Unmarshal (scenario deps stage artifact) d = Inr exampleIndex"
  "MkdirTemp_world (scenario deps stage artifact) = Inr ''/tmp/b1''"
  "MkdirAll_err (scenario deps stage artifact) tr p = None"
  "WriteFile_err (scenario deps stage artifact) tr p = None"
  "Create_err (scenario deps stage artifact) tr p = None"
  "copyDir_world (scenario deps stage artifact) fs a b = (None, fs)"
  "http_Get (scenario deps stage artifact) tr indexURL
     = Inr \<lparr>StatusCode = 200, Body = ''index'', BodyErr = None\<rparr>"
  "NewConnection_err (scenario deps stage artifact) p = None"
  "Pull_err (scenario deps stage artifact) im = None"
  "CreateWithSpec_world (scenario deps stage artifact) sp = Inr ''c1''"
  "Start_err (scenario deps stage artifact) i = None"
  "exec_effect (scenario deps stage artifact) tr cmd fs = fs"
  "diagnostic_world (scenario deps stage artifact) tr cmd = (''rendered'', None)"
  by (simp_all add: scenario_def calmWorld_def)

lemma scenario_artifact:
  "u \<noteq> indexURL \<Longrightarrow> http_Get (scenario deps stage artifact) tr u = artifact"
  by (simp add: scenario_def calmWorld_def)

lemma scenario_exec:
  "exec_world (scenario deps stage artifact) tr conn cid cmd =
     (if take 1 cmd = [''apk''] then Exited [] 0 else stage cmd)"
  by (simp add: scenario_def calmWorld_def)

lemma Base_projectTOML: "Base ''Project.toml'' = ''Project.toml''"
  by code_simp

lemma Join_tmp_project: "Join [''/tmp/b1'', ''Project.toml''] = ''/tmp/b1/Project.toml''"
  by code_simp

lemma Join_tmp_src: "Join [''/tmp/b1'', ''src''] = ''/tmp/b1/src''"
  by code_simp

lemma Join_tmp_deps: "Join [''/tmp/b1'', depsDir] = ''/tmp/b1/.virus_deps''"
  unfolding depsDir_def by code_simp

lemma Itoa_1000: "Itoa 1000 = ''1000''"
  by code_simp

lemma scenario_prepare:
  "prepareWorkspace (scenario deps stage artifact) freshState =
     Cont (exampleConfig deps, ''/tmp/b1'', ''/tmp/b1/.virus_deps'', exampleIndex) prepared"
  by (simp add: prepareWorkspace_def loadConfig_def findProjectFile_def ReadFile_def copyFile_def
        WriteFile_def MkdirAll_def downloadIndex_def Let_def emit_def freshState_def prepared_def
        Base_projectTOML Join_tmp_project Join_tmp_src Join_tmp_deps projectTOML_def)

lemma sandboxSpec_scenario: "sandboxSpec (scenario deps stage artifact) t = sandboxSpec (calmWorld []) t"
  by (simp add: sandboxSpec_def calmWorld_def)

lemma scenario_sandbox:
  "startSandbox (scenario deps stage artifact) ''/tmp/b1'' prepared =
     Cont (Connection podmanSocket, ''c1'') started"
  by (simp add: startSandbox_def Let_def emit_def started_def podmanSocket_def Itoa_1000
        sandboxSpec_scenario)

lemma scenario_provision:
  "provision (scenario deps stage artifact) (Connection podmanSocket) ''c1'' started = Cont () provisioned"
  by (simp add: provision_def execInContainer_def scenario_exec Let_def emit_def provisioned_def)

lemma final_ExitCode1 [simp]: "final (ExitCode1 s) = s"
  by (simp add: final_def)

lemma exitedWith1_ExitCode1 [simp]: "exitedWith1 (ExitCode1 s)"
  by (simp add: exitedWith1_def)

lemma isCreate_simps [simp]:
  "isCreate (CreateWithSpec sp)" "\<not> isCreate (Print l a)" "\<not> isCreate (RunCommand cmd)"
  "\<not> isCreate (HttpGet u)" "\<not> isCreate (Stop i)" "\<not> isCreate (Remove i)"
  "\<not> isCreate (Exec c i cmd)" "\<not> isCreate (Start i)" "\<not> isCreate (NewConnection p)"
  "\<not> isCreate (Pull im)" "\<not> isCreate (RemoveAll d)"
  by (simp_all add: isCreate_def)

lemma provisioned_trace:
  "trace provisioned =
     [Print Section [''Compiling Vira project''], HttpGet indexURL,
      NewConnection podmanSocket, Pull wolfiImage,
      CreateWithSpec (sandboxSpec (calmWorld []) ''/tmp/b1''), Start ''c1'',
      Exec (Connection podmanSocket) ''c1'' [''apk'', ''update''],
      Exec (Connection podmanSocket) ''c1''
        [''apk'', ''add'', ''--no-cache'', ''build-base'', ''gcc'', ''g++'']]"
  by (simp add: provisioned_def started_def prepared_def)

lemma exampleConfig_deps [simp]: "Dependencies (exampleConfig deps) = deps"
  by (simp add: exampleConfig_def)

lemma Replace1_main: "Replace1 ''/work/src/main.vira'' ''/work'' ''/tmp/b1'' = ''/tmp/b1/src/main.vira''"
  by code_simp

lemma scenario_exec_preprocessor:
  "execInContainer (scenario deps preprocessorFails artifact) conn cid (''preprocessor'' # args) s =
     ((''line 3, column 9: unexpected token'', 1, None), emit (Exec conn cid (''preprocessor'' # args)) s)"
  by (simp add: execInContainer_def scenario_exec preprocessorFails_def Let_def emit_def)

lemma scenario_exec_refused:
  "execInContainer (scenario deps preprocessorRefused artifact) conn cid (''preprocessor'' # args) s =
     (([], - 1, Some ''exec create failed''), emit (Exec conn cid (''preprocessor'' # args)) s)"
  by (simp add: execInContainer_def scenario_exec preprocessorRefused_def Let_def emit_def)

lemma failing_main_unit:
  "compileProject (scenario [] preprocessorRefused served) freshState =
     ExitCode1 (handleError (scenario [] preprocessorRefused served) ''/tmp/b1/src/main.vira''
        []
        (emit (Exec Background ''c1''
                 [''preprocessor'', ''/work/src/main.vira'', ''/work/src/main.vira.pre''])
           (emit (Print Section [''Compiling source:'', ''/work/src/main.vira'']) provisioned)))"
proof -
  let ?W = "scenario [] preprocessorRefused served"
  have loop: "depsLoop ?W ''c1'' exampleIndex ''/tmp/b1'' ''/tmp/b1/.virus_deps''
                (Dependencies (exampleConfig [])) ([], []) provisioned = Cont ([], []) provisioned"
    by simp
  have x: "execInContainer ?W Background ''c1''
             (([''preprocessor''] @ []) @ [''/work/src/main.vira'', ''/work/src/main.vira'' @ ''.pre''])
             (emit (Print Section [''Compiling source:'', ''/work/src/main.vira'']) provisioned)
           = (([], - 1, Some ''exec create failed''),
              emit (Exec Background ''c1''
                 [''preprocessor'', ''/work/src/main.vira'', ''/work/src/main.vira.pre''])
               (emit (Print Section [''Compiling source:'', ''/work/src/main.vira'']) provisioned))"
    using scenario_exec_refused [of "[]" served Background "''c1''"
        "[''/work/src/main.vira'', ''/work/src/main.vira.pre'']"] by simp
  have f: "Some ''exec create failed'' \<noteq> None \<or> (- 1::int) \<noteq> 0" by simp
  have c: "compileSourceInContainer ?W Background ''c1'' ''/work/src/main.vira'' ''/work/main.o''
             (map (\<lambda>depPath. ''-I'' @ Replace1 depPath ''/tmp/b1'' ''/work'') (fst ([]::string list, []::string list)))
             ''.vira'' ''/tmp/b1'' provisioned
           = (Some (''preprocess failed: '' @ []),
              handleError ?W (Replace1 ''/work/src/main.vira'' ''/work'' ''/tmp/b1'')
                []
                (emit (Exec Background ''c1''
                   [''preprocessor'', ''/work/src/main.vira'', ''/work/src/main.vira.pre''])
                 (emit (Print Section [''Compiling source:'', ''/work/src/main.vira'']) provisioned)))"
    using compile_pre_fails(1) [OF x f, of "''/work/main.o''" "''/tmp/b1''"] by simp
  have bm: "buildMain ?W (Connection podmanSocket) ''c1'' (exampleConfig []) ''/tmp/b1''
              ([], []) provisioned
            = OsExit (handleError ?W (Replace1 ''/work/src/main.vira'' ''/work'' ''/tmp/b1'')
                []
                (emit (Exec Background ''c1''
                   [''preprocessor'', ''/work/src/main.vira'', ''/work/src/main.vira.pre''])
                 (emit (Print Section [''Compiling source:'', ''/work/src/main.vira'']) provisioned)))"
    using c by (rule buildMain_compile_fails)
  show ?thesis
    using compileProject_main_exit [OF scenario_prepare scenario_sandbox scenario_provision loop bm]
    by (simp only: Replace1_main)
qed

lemma find_foo: "findLibrary exampleIndex ''foo'' = Some fooLibrary"
  by (simp add: findLibrary_def exampleIndex_def fooLibrary_def)

lemma find_bar: "findLibrary exampleIndex ''bar'' = None"
  by (simp add: findLibrary_def exampleIndex_def)

lemma resolve_foo_10:
  "resolveVersion (Versions fooLibrary) ''^1.0'' = Some (mkVersion ''1.0.0'' ''https://h/foo-1.0.0.vira'')"
  by (simp add: fooLibrary_def resolveVersion_def HasPrefix_def mkVersion_def numeral_2_eq_2)

lemma resolve_foo_star:
  "resolveVersion (Versions fooLibrary) ''*'' = Some (mkVersion ''1.2.0'' ''https://h/notes.TXT'')"
  by (simp add: fooLibrary_def resolveVersion_def)

lemma resolve_foo_999: "resolveVersion (Versions fooLibrary) ''9.9.9'' = None"
  by (simp add: fooLibrary_def resolveVersion_def HasPrefix_def mkVersion_def numeral_2_eq_2)

lemma Join_dep12: "Join [''/tmp/b1/.virus_deps'', ''foo'', ''1.2.0''] = ''/tmp/b1/.virus_deps/foo/1.2.0''"
  by code_simp

lemma Base_notes: "Base ''https://h/notes.TXT'' = ''notes.TXT''"
  by code_simp

lemma Join_notes: "Join [''/tmp/b1/.virus_deps/foo/1.2.0'', ''notes.TXT'']
   = ''/tmp/b1/.virus_deps/foo/1.2.0/notes.TXT''"
  by code_simp

lemma ext_notes: "ToLower (Ext ''notes.TXT'') = ''.txt''"
  by code_simp

lemma ext_foo: "ToLower (Ext ''foo-1.0.0.vira'') = ''.vira''"
  by code_simp

lemma Replace1_target:
  "Replace1 ''/tmp/b1/.virus_deps/foo/1.0.0/foo-1.0.0.vira'' ''/tmp/b1'' ''/work''
     = ''/work/.virus_deps/foo/1.0.0/foo-1.0.0.vira''"
  by code_simp

lemma Replace1_host:
  "Replace1 ''/work/.virus_deps/foo/1.0.0/foo-1.0.0.vira'' ''/work'' ''/tmp/b1''
     = ''/tmp/b1/.virus_deps/foo/1.0.0/foo-1.0.0.vira''"
  by code_simp

lemma url_not_index:
  "''https://h/foo-1.0.0.vira'' \<noteq> indexURL" "''https://h/notes.TXT'' \<noteq> indexURL"
  by (simp_all add: indexURL_def)

lemma scenario_fetch_foo:
  "ensure (scenario deps stage served) ''/tmp/b1/.virus_deps'' ''foo''
     (mkVersion ''1.0.0'' ''https://h/foo-1.0.0.vira'') provisioned
   = Cont (''/tmp/b1/.virus_deps/foo/1.0.0'', ''foo-1.0.0.vira'',
           ''/tmp/b1/.virus_deps/foo/1.0.0/foo-1.0.0.vira'') fetched"
  by (simp add: ensure_unfold mkVersion_def Join_dep Base_url Join_target MkdirAll_def
        downloadWithProgress_def Create_def Let_def emit_def scenario_artifact url_not_index
        served_def fetched_def provisioned_def started_def prepared_def projectTOML_def)

lemma scenario_fetch_notes:
  "ensure (scenario deps stage served) ''/tmp/b1/.virus_deps'' ''foo''
     (mkVersion ''1.2.0'' ''https://h/notes.TXT'') provisioned
   = Cont (''/tmp/b1/.virus_deps/foo/1.2.0'', ''notes.TXT'',
           ''/tmp/b1/.virus_deps/foo/1.2.0/notes.TXT'') fetchedNotes"
  by (simp add: ensure_unfold mkVersion_def Join_dep12 Base_notes Join_notes MkdirAll_def
        downloadWithProgress_def Create_def Let_def emit_def scenario_artifact url_not_index
        served_def fetchedNotes_def provisioned_def started_def prepared_def projectTOML_def)

lemma scenario_fetch_refused:
  "\<exists>s. ensure (scenario deps stage (Inl ''connection refused'')) ''/tmp/b1/.virus_deps'' ''foo''
     (mkVersion ''1.0.0'' ''https://h/foo-1.0.0.vira'') provisioned = OsExit s"
  by (simp add: ensure_unfold mkVersion_def Join_dep Base_url Join_target MkdirAll_def
        downloadWithProgress_def Create_def Let_def emit_def scenario_artifact url_not_index
        provisioned_def started_def prepared_def projectTOML_def)

lemma fetched_trace:
  "trace fetched = trace provisioned @
     [Print Info [''Downloading'', ''foo'', ''1.0.0''], HttpGet ''https://h/foo-1.0.0.vira'']"
  by (simp add: fetched_def)

lemma fetchedNotes_trace:
  "trace fetchedNotes = trace provisioned @
     [Print Info [''Downloading'', ''foo'', ''1.2.0''], HttpGet ''https://h/notes.TXT'']"
  by (simp add: fetchedNotes_def)

lemma Sscanf_3_9: "Sscanf_line_column ''line 3, column 9: unexpected token'' (1, 1) = (3, 9)"
  by code_simp

lemma Itoa_3_9: "Itoa 3 = ''3''" "Itoa 9 = ''9''"
  by code_simp+

lemma Contains_line: "Contains ''line 3, column 9: unexpected token'' ''line''"
  by code_simp

lemma scenario_report:
  "trace (handleError (scenario deps stage artifact) src ''line 3, column 9: unexpected token'' s)
     = trace s @
       [Print Error [''Error occurred. Running diagnostic...''],
        RunCommand [''/usr/lib/vira-lang/bin/diagnostic'', ''--source'', src,
                    ''--message'', ''line 3, column 9: unexpected token'',
                    ''--line'', ''3'', ''--column'', ''9''],
        Print Info [''rendered'']]"
proof -
  have m: "takeWhile (\<lambda>c. c \<noteq> CHR 0x0A) ''line 3, column 9: unexpected token''
             = ''line 3, column 9: unexpected token''"
    by simp
  show ?thesis
    unfolding handleError_trace Let_def m
    apply (simp only: Contains_line if_True Sscanf_3_9 fst_conv snd_conv Itoa_3_9)
    apply (simp add: Join_bin)
    done
qed

section \<open>Sandbox and pipeline: the claims\<close>

text \<open>
  C1. The claim is that the teardown (Stop, then Remove) runs exactly once on every
  termination path of a build whose session was created. The program registers the
  teardown as a deferred function, which runs only when \<^verbatim>\<open>compileProject\<close> returns;
  every failure ends the process with \<^verbatim>\<open>os.Exit(1)\<close>, which runs no deferred
  function. In the build below the session is created and started, the exec request of
  the preprocessing stage of the main unit fails, the process exits with status 1, and
  the trace holds no Stop and no Remove.
\<close>

theorem C1_failed_build_leaves_sandbox:
  "exitedWith1 (compileProject (scenario [] preprocessorRefused served) freshState)
   \<and> filter isCreate (trace (final (compileProject (scenario [] preprocessorRefused served) freshState)))
       = [CreateWithSpec (sandboxSpec (scenario [] preprocessorRefused served) ''/tmp/b1'')]
   \<and> Start ''c1'' \<in> set (trace (final (compileProject (scenario [] preprocessorRefused served) freshState)))
   \<and> filter isStop (trace (final (compileProject (scenario [] preprocessorRefused served) freshState))) = []
   \<and> filter isRemove (trace (final (compileProject (scenario [] preprocessorRefused served) freshState))) = []"
proof -
  let ?W = "scenario [] preprocessorRefused served"
  let ?s = "handleError ?W ''/tmp/b1/src/main.vira'' []
        (emit (Exec Background ''c1''
                 [''preprocessor'', ''/work/src/main.vira'', ''/work/src/main.vira.pre''])
           (emit (Print Section [''Compiling source:'', ''/work/src/main.vira'']) provisioned))"
  have r: "compileProject ?W freshState = ExitCode1 ?s" by (rule failing_main_unit)
  have t0: "trace freshState = []" by (simp add: freshState_def)
  have stop: "filter isStop (trace ?s) = []" "filter isRemove (trace ?s) = []"
    using exit_no_teardown [OF r] by (simp_all add: t0)
  have cr: "filter isCreate (trace ?s) = [CreateWithSpec (sandboxSpec ?W ''/tmp/b1'')]"
    by (simp add: handleError_trace Let_def provisioned_trace sandboxSpec_scenario)
  have st: "Start ''c1'' \<in> set (trace ?s)"
    by (simp add: handleError_trace Let_def provisioned_trace)
  show ?thesis unfolding r using stop cr st by simp
qed

text \<open>
  C2, as stated, fails: the dependency \<open>bar\<close> is not in the index, and the session
  has been created, started and provisioned when the build reports it and exits.
\<close>

theorem C2_counterexample:
  "findLibrary exampleIndex ''bar'' = None
   \<and> exitedWith1 (compileProject (scenario [(''bar'', ''*'')] stagesSucceed served) freshState)
   \<and> trace (final (compileProject (scenario [(''bar'', ''*'')] stagesSucceed served) freshState))
       = [Print Section [''Compiling Vira project''], HttpGet indexURL,
          NewConnection podmanSocket, Pull wolfiImage,
          CreateWithSpec (sandboxSpec (calmWorld []) ''/tmp/b1''), Start ''c1'',
          Exec (Connection podmanSocket) ''c1'' [''apk'', ''update''],
          Exec (Connection podmanSocket) ''c1''
            [''apk'', ''add'', ''--no-cache'', ''build-base'', ''gcc'', ''g++''],
          Print Error [''Library not found:'', ''bar'']]"
proof -
  let ?W = "scenario [(''bar'', ''*'')] stagesSucceed served"
  have st: "depStep ?W ''c1'' exampleIndex ''/tmp/b1'' ''/tmp/b1/.virus_deps'' (''bar'', ''*'')
              ([], []) provisioned
            = OsExit (emit (Print Error [''Library not found:'', ''bar'']) provisioned)"
    by (simp add: depStep_def find_bar)
  have loop: "depsLoop ?W ''c1'' exampleIndex ''/tmp/b1'' ''/tmp/b1/.virus_deps''
                (Dependencies (exampleConfig [(''bar'', ''*'')])) ([], []) provisioned
              = OsExit (emit (Print Error [''Library not found:'', ''bar'']) provisioned)"
    by (simp add: st)
  have r: "compileProject ?W freshState
             = ExitCode1 (emit (Print Error [''Library not found:'', ''bar'']) provisioned)"
    using scenario_prepare scenario_sandbox scenario_provision loop
    by (rule compileProject_deps_exit)
  show ?thesis unfolding r by (simp add: find_bar provisioned_trace)
qed

text \<open>
  C2 (amended). For every build whose dependency resolution fails (library or version not
  found) or whose artifact fetch fails, the build exits with status 1 at that dependency:
  nothing is executed in the sandbox after the failure, so no stage of that or a later
  unit runs and nothing is linked. The sandbox session has already been created, started
  and provisioned by then: the sandbox is set up before the dependencies are resolved.
\<close>

theorem C2_fetch_failure_aborts_after_sandbox_setup:
  "prepareWorkspace w s = Cont (config, tempDir, depsDirTemp, index) s1
   \<and> startSandbox w tempDir s1 = Cont (conn, cid) s2
   \<and> provision w conn cid s2 = Cont u s3
   \<and> Dependencies config = pre @ dep # rest
   \<and> depsLoop w cid index tempDir depsDirTemp pre ([], []) s3 = Cont acc s4
   \<and> fetchAborts w index depsDirTemp dep s4
   \<longrightarrow> (\<exists>s5. compileProject w s = ExitCode1 s5
          \<and> filter isExec (trace s5) = filter isExec (trace s4)
          \<and> CreateWithSpec (sandboxSpec w tempDir) \<in> set (trace s5)
          \<and> Start cid \<in> set (trace s5)
          \<and> Exec conn cid [''apk'', ''update''] \<in> set (trace s5))"
proof
  assume h: "prepareWorkspace w s = Cont (config, tempDir, depsDirTemp, index) s1
   \<and> startSandbox w tempDir s1 = Cont (conn, cid) s2
   \<and> provision w conn cid s2 = Cont u s3
   \<and> Dependencies config = pre @ dep # rest
   \<and> depsLoop w cid index tempDir depsDirTemp pre ([], []) s3 = Cont acc s4
   \<and> fetchAborts w index depsDirTemp dep s4"
  then have prep: "prepareWorkspace w s = Cont (config, tempDir, depsDirTemp, index) s1"
    and sb: "startSandbox w tempDir s1 = Cont (conn, cid) s2"
    and pv: "provision w conn cid s2 = Cont u s3"
    and deps: "Dependencies config = pre @ dep # rest"
    and before: "depsLoop w cid index tempDir depsDirTemp pre ([], []) s3 = Cont acc s4"
    and ab: "fetchAborts w index depsDirTemp dep s4"
    by simp_all
  from depStep_abort [of "\<lambda>e. \<not> isExec e", OF _ _ ab, of cid tempDir acc]
  obtain s5 where st: "depStep w cid index tempDir depsDirTemp dep acc s4 = OsExit s5"
    and quiet: "appended (\<lambda>e. \<not> isExec e) s4 s5"
    by auto
  have loop: "depsLoop w cid index tempDir depsDirTemp (Dependencies config) ([], []) s3 = OsExit s5"
    unfolding deps using before st by (rule depsLoop_at)
  have out: "compileProject w s = ExitCode1 s5"
    using prep sb pv loop by (rule compileProject_deps_exit)
  have ex: "filter isExec (trace s5) = filter isExec (trace s4)"
    using quiet by (rule appended_filter) simp
  have p3: "appended running s2 s3"
    using provision_running [of s2 w conn cid] pv by (simp add: resState_def)
  have p4: "appended running s3 s4"
    using depsLoop_running [of s3 w cid index tempDir depsDirTemp pre "([], [])"] before
    by (simp add: resState_def)
  have p5: "appended (\<lambda>e. \<not> isExec e) s4 s5" by (rule quiet)
  have m3: "e \<in> set (trace s3) \<Longrightarrow> e \<in> set (trace s5)" for e
    using appended_mem [OF p5] appended_mem [OF p4] by blast
  have m2: "e \<in> set (trace s2) \<Longrightarrow> e \<in> set (trace s5)" for e
    using appended_mem [OF p3] m3 by blast
  have c: "CreateWithSpec (sandboxSpec w tempDir) \<in> set (trace s2)" "Start cid \<in> set (trace s2)"
    using startSandbox_Cont(1) [OF sb] by simp_all
  have a: "Exec conn cid [''apk'', ''update''] \<in> set (trace s3)"
    using provision_Cont [OF pv] by simp
  from out ex m2 [OF c(1)] m2 [OF c(2)] m3 [OF a]
  show "\<exists>s5. compileProject w s = ExitCode1 s5
          \<and> filter isExec (trace s5) = filter isExec (trace s4)
          \<and> CreateWithSpec (sandboxSpec w tempDir) \<in> set (trace s5)
          \<and> Start cid \<in> set (trace s5)
          \<and> Exec conn cid [''apk'', ''update''] \<in> set (trace s5)"
    by blast
qed

theorem C2_fetch_failure_aborts_after_sandbox_setup_witness:
  "exitedWith1 (compileProject (scenario [(''foo'', ''9.9.9'')] stagesSucceed served) freshState)
   \<and> filter isExec (trace (final (compileProject
         (scenario [(''foo'', ''9.9.9'')] stagesSucceed served) freshState)))
       = [Exec (Connection podmanSocket) ''c1'' [''apk'', ''update''],
          Exec (Connection podmanSocket) ''c1''
            [''apk'', ''add'', ''--no-cache'', ''build-base'', ''gcc'', ''g++'']]
   \<and> CreateWithSpec (sandboxSpec (calmWorld []) ''/tmp/b1'')
       \<in> set (trace (final (compileProject
             (scenario [(''foo'', ''9.9.9'')] stagesSucceed served) freshState)))
   \<and> exitedWith1 (compileProject
         (scenario [(''foo'', ''^1.0'')] stagesSucceed (Inl ''connection refused'')) freshState)
   \<and> filter isExec (trace (final (compileProject
         (scenario [(''foo'', ''^1.0'')] stagesSucceed (Inl ''connection refused'')) freshState)))
       = [Exec (Connection podmanSocket) ''c1'' [''apk'', ''update''],
          Exec (Connection podmanSocket) ''c1''
            [''apk'', ''add'', ''--no-cache'', ''build-base'', ''gcc'', ''g++'']]
   \<and> CreateWithSpec (sandboxSpec (calmWorld []) ''/tmp/b1'')
       \<in> set (trace (final (compileProject
             (scenario [(''foo'', ''^1.0'')] stagesSucceed (Inl ''connection refused'')) freshState)))"
proof -
  let ?A = "scenario [(''foo'', ''9.9.9'')] stagesSucceed served"
  let ?B = "scenario [(''foo'', ''^1.0'')] stagesSucceed (Inl ''connection refused'')"
  have ex: "filter isExec (trace provisioned)
       = [Exec (Connection podmanSocket) ''c1'' [''apk'', ''update''],
          Exec (Connection podmanSocket) ''c1''
            [''apk'', ''add'', ''--no-cache'', ''build-base'', ''gcc'', ''g++'']]"
    by (simp add: provisioned_trace)
  have abA: "fetchAborts ?A exampleIndex ''/tmp/b1/.virus_deps'' (''foo'', ''9.9.9'') provisioned"
    by (simp add: fetchAborts_def find_foo resolve_foo_999)
  have abB: "fetchAborts ?B exampleIndex ''/tmp/b1/.virus_deps'' (''foo'', ''^1.0'') provisioned"
    using scenario_fetch_refused [of "[(''foo'', ''^1.0'')]" stagesSucceed]
    by (auto simp: fetchAborts_def find_foo resolve_foo_10)
  have hA: "prepareWorkspace ?A freshState
              = Cont (exampleConfig [(''foo'', ''9.9.9'')], ''/tmp/b1'', ''/tmp/b1/.virus_deps'', exampleIndex) prepared
      \<and> startSandbox ?A ''/tmp/b1'' prepared = Cont (Connection podmanSocket, ''c1'') started
      \<and> provision ?A (Connection podmanSocket) ''c1'' started = Cont () provisioned
      \<and> Dependencies (exampleConfig [(''foo'', ''9.9.9'')]) = [] @ (''foo'', ''9.9.9'') # []
      \<and> depsLoop ?A ''c1'' exampleIndex ''/tmp/b1'' ''/tmp/b1/.virus_deps'' [] ([], []) provisioned
           = Cont ([], []) provisioned
      \<and> fetchAborts ?A exampleIndex ''/tmp/b1/.virus_deps'' (''foo'', ''9.9.9'') provisioned"
    using abA by (simp add: scenario_prepare scenario_sandbox scenario_provision)
  have hB: "prepareWorkspace ?B freshState
              = Cont (exampleConfig [(''foo'', ''^1.0'')], ''/tmp/b1'', ''/tmp/b1/.virus_deps'', exampleIndex) prepared
      \<and> startSandbox ?B ''/tmp/b1'' prepared = Cont (Connection podmanSocket, ''c1'') started
      \<and> provision ?B (Connection podmanSocket) ''c1'' started = Cont () provisioned
      \<and> Dependencies (exampleConfig [(''foo'', ''^1.0'')]) = [] @ (''foo'', ''^1.0'') # []
      \<and> depsLoop ?B ''c1'' exampleIndex ''/tmp/b1'' ''/tmp/b1/.virus_deps'' [] ([], []) provisioned
           = Cont ([], []) provisioned
      \<and> fetchAborts ?B exampleIndex ''/tmp/b1/.virus_deps'' (''foo'', ''^1.0'') provisioned"
    using abB by (simp add: scenario_prepare scenario_sandbox scenario_provision)
  from C2_fetch_failure_aborts_after_sandbox_setup [rule_format, OF hA]
  obtain sA where A: "compileProject ?A freshState = ExitCode1 sA"
    "filter isExec (trace sA) = filter isExec (trace provisioned)"
    "CreateWithSpec (sandboxSpec ?A ''/tmp/b1'') \<in> set (trace sA)"
    by blast
  from C2_fetch_failure_aborts_after_sandbox_setup [rule_format, OF hB]
  obtain sB where B: "compileProject ?B freshState = ExitCode1 sB"
    "filter isExec (trace sB) = filter isExec (trace provisioned)"
    "CreateWithSpec (sandboxSpec ?B ''/tmp/b1'') \<in> set (trace sB)"
    by blast
  show ?thesis
    unfolding A(1) B(1) using A(2,3) B(2,3) ex by (simp add: sandboxSpec_scenario)
qed





end
